theory Spec2Isabelle
  imports Complex_Main
begin

section \<open>Python values and the builtins the scripts use\<close>

text \<open>
  The geometry scripts build nested Python lists of strings, booleans and numbers and hand
  them to the editor of the external solver. A number is an \<open>int\<close> or a \<open>float\<close>;
  floats are idealised as reals, so the model says nothing about rounding, infinities or
  NaN. The text that \<open>str\<close> prints for a float is Python's own business: every function
  that prints a number takes that printer as its first argument \<open>fstr\<close>.
\<close>

datatype pynum = PyInt int | PyFloat real

datatype pyval = PBool bool | PNum pynum | PStr string | PList "pyval list"

datatype pyerr = IndexError | KeyError | ValueError | FileNotFoundError | OtherError string

definition digit_char :: "nat \<Rightarrow> char" where
  "digit_char d = ''0123456789'' ! d"

function str_nat :: "nat \<Rightarrow> string" where
  "str_nat n = (if n < 10 then [digit_char n] else str_nat (n div 10) @ [digit_char (n mod 10)])"
  by pat_completeness auto
termination
  by (relation "measure (\<lambda>n. n)") auto

definition str_int :: "int \<Rightarrow> string" where
  "str_int i = (if i < 0 then CHR ''-'' # str_nat (nat (- i)) else str_nat (nat i))"

fun str_num :: "(real \<Rightarrow> string) \<Rightarrow> pynum \<Rightarrow> string" where
  "str_num fstr (PyInt i) = str_int i"
| "str_num fstr (PyFloat r) = fstr r"

definition str_bool :: "bool \<Rightarrow> string" where
  "str_bool b = (if b then ''True'' else ''False'')"

text \<open>The value of a number, for Python's mixed comparisons \<open>x != 0.0\<close> and \<open>x != 1.0\<close>.\<close>

fun num_val :: "pynum \<Rightarrow> real" where
  "num_val (PyInt i) = real_of_int i"
| "num_val (PyFloat r) = r"

text \<open>
  \<open>x != c\<close> for a float constant \<open>c\<close>: numbers compare by value, a boolean is the
  integer 0 or 1, and a string or a list is never equal to a number.
\<close>

fun py_ne :: "pyval \<Rightarrow> real \<Rightarrow> bool" where
  "py_ne (PNum n) c = (num_val n \<noteq> c)"
| "py_ne (PBool b) c = ((if b then 1 else 0) \<noteq> c)"
| "py_ne (PStr s) c = True"
| "py_ne (PList xs) c = True"

text \<open>\<open>sep.join(xs)\<close>\<close>

fun join :: "string \<Rightarrow> string list \<Rightarrow> string" where
  "join sep [] = []"
| "join sep [x] = x"
| "join sep (x # y # ys) = x @ sep @ join sep (y # ys)"

text \<open>\<open>xs[i]\<close> for an index that is not negative: out of range raises \<open>IndexError\<close>.\<close>

definition py_index :: "'a list \<Rightarrow> nat \<Rightarrow> pyerr + 'a" where
  "py_index xs i = (if i < length xs then Inr (xs ! i) else Inl IndexError)"

text \<open>A list comprehension whose body can raise: the first error ends it.\<close>

fun collect :: "('a \<Rightarrow> pyerr + 'b) \<Rightarrow> 'a list \<Rightarrow> pyerr + 'b list" where
  "collect f [] = Inr []"
| "collect f (x # xs) =
     (case f x of
        Inl e \<Rightarrow> Inl e
      | Inr y \<Rightarrow> (case collect f xs of Inl e \<Rightarrow> Inl e | Inr ys \<Rightarrow> Inr (y # ys)))"

section \<open>The editor session\<close>

text \<open>
  The editor \<open>oEditor\<close> belongs to the external solver. What the scripts do to it is the
  sequence of calls they issue, each a method name with its positional arguments; the
  session is modelled by the log of these calls. \<open>Paste\<close> is the one call whose answer
  the scripts use: \<open>paste_reply\<close> gives the names the session answers with, from the
  calls it has seen. What the session makes of a call, an error it may raise included, is
  outside the model.
\<close>

datatype call = Call (call_name: string) (call_args: "pyval list")

record editor =
  calls :: "call list"
  paste_reply :: "call list \<Rightarrow> string list"

definition issue :: "editor \<Rightarrow> string \<Rightarrow> pyval list \<Rightarrow> editor" where
  "issue oEditor name arguments = oEditor\<lparr>calls := calls oEditor @ [Call name arguments]\<rparr>"

text \<open>The calls a function has added to the session \<open>before\<close>.\<close>

definition new_calls :: "editor \<Rightarrow> editor \<Rightarrow> call list" where
  "new_calls before after = drop (length (calls before)) (calls after)"

section \<open>\<open>geometry.py\<close>\<close>

fun format_position :: "(real \<Rightarrow> string) \<Rightarrow> pyval \<Rightarrow> string \<Rightarrow> pyval" where
  "format_position fstr (PList x) units = PList (map (\<lambda>p. format_position fstr p units) x)"
| "format_position fstr (PStr x) units = PStr x"
| "format_position fstr (PNum x) units = PStr (str_num fstr x @ units)"
| "format_position fstr (PBool x) units = PStr (str_bool x @ units)"

text \<open>A requested dimension that is exactly zero: a number, integer or float, of value 0.\<close>

definition is_zero :: "pyval \<Rightarrow> bool" where
  "is_zero v = (case v of PNum n \<Rightarrow> num_val n = 0 | _ \<Rightarrow> False)"

definition create_rectangle ::
  "(real \<Rightarrow> string) \<Rightarrow> editor \<Rightarrow> string \<Rightarrow> pyval \<Rightarrow> pyval \<Rightarrow> pyval \<Rightarrow> pyval \<Rightarrow> pyval \<Rightarrow> string \<Rightarrow> string
     \<Rightarrow> editor" where
  "create_rectangle fstr oEditor name x y z w h axis units =
     (if py_ne w 0.0 \<and> py_ne h 0.0 then
        issue oEditor ''CreateRectangle''
          [PList [PStr ''NAME:RectangleParameters'',
                  PStr ''IsCovered:='', PBool True,
                  PStr ''XStart:='', format_position fstr x units,
                  PStr ''YStart:='', format_position fstr y units,
                  PStr ''ZStart:='', format_position fstr z units,
                  PStr ''Width:='', format_position fstr w units,
                  PStr ''Height:='', format_position fstr h units,
                  PStr ''WhichAxis:='', PStr axis],
           PList [PStr ''NAME:Attributes'', PStr ''Name:='', PStr name,
                  PStr ''PartCoordinateSystem:='', PStr ''Global'']]
      else oEditor)"

text \<open>One entry of the point list of \<open>create_polygon\<close>: \<open>p[0]\<close>, \<open>p[1]\<close>, \<open>p[2]\<close>.\<close>

definition polyline_point :: "(real \<Rightarrow> string) \<Rightarrow> string \<Rightarrow> pyval list \<Rightarrow> pyerr + pyval" where
  "polyline_point fstr units p =
     (case py_index p 0 of
        Inl e \<Rightarrow> Inl e
      | Inr px \<Rightarrow>
          (case py_index p 1 of
             Inl e \<Rightarrow> Inl e
           | Inr py \<Rightarrow>
               (case py_index p 2 of
                  Inl e \<Rightarrow> Inl e
                | Inr pz \<Rightarrow>
                    Inr (PList [PStr ''NAME:PLPoint'',
                                PStr ''X:='', format_position fstr px units,
                                PStr ''Y:='', format_position fstr py units,
                                PStr ''Z:='', format_position fstr pz units]))))"

definition polyline_segment :: "nat \<Rightarrow> pyval" where
  "polyline_segment i =
     PList [PStr ''NAME:PLSegment'', PStr ''SegmentType:='', PStr ''Line'',
            PStr ''StartIndex:='', PNum (PyInt (int i)), PStr ''NoOfPoints:='', PNum (PyInt 2)]"

definition polyline_xsection :: "string \<Rightarrow> pyval" where
  "polyline_xsection units =
     PList [PStr ''NAME:PolylineXSection'',
            PStr ''XSectionType:='', PStr ''None'',
            PStr ''XSectionOrient:='', PStr ''Auto'',
            PStr ''XSectionWidth:='', PStr (''0'' @ units),
            PStr ''XSectionTopWidth:='', PStr (''0'' @ units),
            PStr ''XSectionHeight:='', PStr (''0'' @ units),
            PStr ''XSectionNumSegments:='', PStr ''0'',
            PStr ''XSectionBendType:='', PStr ''Corner'']"

text \<open>
  \<open>create_polygon\<close> has no guard. Python evaluates the arguments before the call, so an
  \<open>IndexError\<close> (no points, or a point with fewer than three coordinates) leaves the
  editor without a call.
\<close>

definition create_polygon ::
  "(real \<Rightarrow> string) \<Rightarrow> editor \<Rightarrow> string \<Rightarrow> pyval list list \<Rightarrow> string \<Rightarrow> pyerr + editor" where
  "create_polygon fstr oEditor name points units =
     (case py_index points 0 of
        Inl e \<Rightarrow> Inl e
      | Inr p0 \<Rightarrow>
          (case collect (polyline_point fstr units) (points @ [p0]) of
             Inl e \<Rightarrow> Inl e
           | Inr pts \<Rightarrow>
               Inr (issue oEditor ''CreatePolyline''
                 [PList [PStr ''NAME:PolylineParameters'',
                         PStr ''IsPolylineCovered:='', PBool True,
                         PStr ''IsPolylineClosed:='', PBool True,
                         PList (PStr ''NAME:PolylinePoints'' # pts),
                         PList (PStr ''NAME:PolylineSegments''
                                  # map polyline_segment [0 ..< length points]),
                         polyline_xsection units],
                  PList [PStr ''NAME:Attributes'', PStr ''Name:='', PStr name,
                         PStr ''Flags:='', PStr '''',
                         PStr ''PartCoordinateSystem:='', PStr ''Global'']])))"

definition create_box ::
  "(real \<Rightarrow> string) \<Rightarrow> editor \<Rightarrow> string \<Rightarrow> pyval \<Rightarrow> pyval \<Rightarrow> pyval \<Rightarrow> pyval \<Rightarrow> pyval \<Rightarrow> pyval \<Rightarrow> string
     \<Rightarrow> editor" where
  "create_box fstr oEditor name x y z sx sy sz units =
     (if py_ne sx 0.0 \<and> py_ne sy 0.0 \<and> py_ne sz 0.0 then
        issue oEditor ''CreateBox''
          [PList [PStr ''NAME:BoxParameters'',
                  PStr ''XPosition:='', format_position fstr x units,
                  PStr ''YPosition:='', format_position fstr y units,
                  PStr ''ZPosition:='', format_position fstr z units,
                  PStr ''XSize:='', format_position fstr sx units,
                  PStr ''YSize:='', format_position fstr sy units,
                  PStr ''ZSize:='', format_position fstr sz units],
           PList [PStr ''NAME:Attributes'', PStr ''Name:='', PStr name,
                  PStr ''MaterialValue:='', PStr [CHR 0x22, CHR 0x22],
                  PStr ''Flags:='', PStr '''',
                  PStr ''PartCoordinateSystem:='', PStr ''Global'']]
      else oEditor)"

definition thicken_sheet ::
  "(real \<Rightarrow> string) \<Rightarrow> editor \<Rightarrow> string list \<Rightarrow> pynum \<Rightarrow> string \<Rightarrow> editor" where
  "thicken_sheet fstr oEditor objects thickness units =
     (if objects \<noteq> [] \<and> num_val thickness \<noteq> 0.0 then
        issue oEditor ''SweepAlongVector''
          [PList [PStr ''NAME:Selections'', PStr ''Selections:='', PStr (join '','' objects),
                  PStr ''NewPartsModelFlag:='', PStr ''Model''],
           PList [PStr ''NAME:VectorSweepParameters'',
                  PStr ''DraftAngle:='', PStr ''0deg'',
                  PStr ''DraftType:='', PStr ''Round'',
                  PStr ''CheckFaceFaceIntersection:='', PBool False,
                  PStr ''SweepVectorX:='', PStr ''0um'',
                  PStr ''SweepVectorY:='', PStr ''0um'',
                  PStr ''SweepVectorZ:='', PStr (str_num fstr thickness @ '' '' @ units)]]
      else oEditor)"

text \<open>The argument of \<open>ChangeProperty\<close> that changes one property of the given objects.\<close>

definition changed_prop :: "string list \<Rightarrow> pyval list \<Rightarrow> pyval" where
  "changed_prop objects prop =
     PList [PStr ''NAME:AllTabs'',
            PList [PStr ''NAME:Geometry3DAttributeTab'',
                   PList (PStr ''NAME:PropServers'' # map PStr objects),
                   PList [PStr ''NAME:ChangedProps'', PList prop]]]"

definition set_material :: "editor \<Rightarrow> string list \<Rightarrow> string option \<Rightarrow> bool option \<Rightarrow> editor" where
  "set_material oEditor objects material solve_inside =
     (if objects \<noteq> [] then
        let oEditor1 =
              (case solve_inside of
                 Some si \<Rightarrow>
                   issue oEditor ''ChangeProperty''
                     [changed_prop objects [PStr ''NAME:Solve Inside'', PStr ''Value:='', PBool si]]
               | None \<Rightarrow> oEditor)
        in (case material of
              Some m \<Rightarrow>
                issue oEditor1 ''ChangeProperty''
                  [changed_prop objects
                     [PStr ''NAME:Material'', PStr ''Value:='', PStr ([CHR 0x22] @ m @ [CHR 0x22])]]
            | None \<Rightarrow>
                issue oEditor1 ''ChangeProperty''
                  [changed_prop objects [PStr ''NAME:Model'', PStr ''Value:='', PBool False]])
      else oEditor)"

definition move_vertically ::
  "(real \<Rightarrow> string) \<Rightarrow> editor \<Rightarrow> string list \<Rightarrow> pynum \<Rightarrow> string \<Rightarrow> editor" where
  "move_vertically fstr oEditor objects z_shift units =
     (if objects \<noteq> [] \<and> num_val z_shift \<noteq> 0.0 then
        issue oEditor ''Move''
          [PList [PStr ''NAME:Selections'', PStr ''Selections:='', PStr (join '','' objects),
                  PStr ''NewPartsModelFlag:='', PStr ''Model''],
           PList [PStr ''NAME:TranslateParameters'',
                  PStr ''TranslateVectorX:='', PStr (''0 '' @ units),
                  PStr ''TranslateVectorY:='', PStr (''0 '' @ units),
                  PStr ''TranslateVectorZ:='', PStr (str_num fstr z_shift @ '' '' @ units)]]
      else oEditor)"

text \<open>\<open>copy_paste\<close> returns the names the session answers \<open>Paste\<close> with.\<close>

definition copy_paste :: "editor \<Rightarrow> string list \<Rightarrow> editor \<times> string list" where
  "copy_paste oEditor objects =
     (if objects \<noteq> [] then
        let oEditor1 = issue oEditor ''Copy''
                         [PList [PStr ''NAME:Selections'', PStr ''Selections:='',
                                 PStr (join '','' objects)]];
            oEditor2 = issue oEditor1 ''Paste'' []
        in (oEditor2, paste_reply oEditor2 (calls oEditor2))
      else (oEditor, []))"

definition delete :: "editor \<Rightarrow> string list \<Rightarrow> editor" where
  "delete oEditor objects =
     (if objects \<noteq> [] then
        issue oEditor ''Delete''
          [PList [PStr ''NAME:Selections'', PStr ''Selections:='', PStr (join '','' objects)]]
      else oEditor)"

definition subtract :: "editor \<Rightarrow> string list \<Rightarrow> string list \<Rightarrow> bool \<Rightarrow> editor" where
  "subtract oEditor objects tool_objects keep_originals =
     (if objects \<noteq> [] \<and> tool_objects \<noteq> [] then
        issue oEditor ''Subtract''
          [PList [PStr ''NAME:Selections'',
                  PStr ''Blank Parts:='', PStr (join '','' objects),
                  PStr ''Tool Parts:='', PStr (join '','' tool_objects)],
           PList [PStr ''NAME:SubtractParameters'',
                  PStr ''KeepOriginals:='', PBool keep_originals,
                  PStr ''TurnOnNBodyBoolean:='', PBool True]]
      else oEditor)"

definition unite :: "editor \<Rightarrow> string list \<Rightarrow> bool \<Rightarrow> editor" where
  "unite oEditor objects keep_originals =
     (if length objects > 1 then
        issue oEditor ''Unite''
          [PList [PStr ''NAME:Selections'', PStr ''Selections:='', PStr (join '','' objects)],
           PList [PStr ''NAME:UniteParameters'',
                  PStr ''KeepOriginals:='', PBool keep_originals,
                  PStr ''TurnOnNBodyBoolean:='', PBool True]]
      else oEditor)"

text \<open>
  \<open>int(x)\<close> of a float truncates towards zero. A material dictionary maps a material
  name to its properties, each a number; \<open>d.get(k, default)\<close> is the \<open>case\<close> on the
  lookup.
\<close>

definition py_int :: "real \<Rightarrow> int" where
  "py_int r = (if 0 \<le> r then \<lfloor>r\<rfloor> else \<lceil>r\<rceil>)"

definition dict_get :: "('k \<rightharpoonup> 'v) \<Rightarrow> 'k \<Rightarrow> 'v \<Rightarrow> 'v" where
  "dict_get d k dflt = (case d k of None \<Rightarrow> dflt | Some v \<Rightarrow> v)"

definition color_by_material ::
  "string \<Rightarrow> (string \<rightharpoonup> (string \<rightharpoonup> real)) \<Rightarrow> bool \<Rightarrow> int \<times> int \<times> int \<times> real" where
  "color_by_material material material_dict is_sheet =
     (if material = ''pec''
         \<or> dict_get (dict_get material_dict material Map.empty) ''conductivity'' 0 > 0
      then (240, 120, 240, 0.5)
      else
        let n = 0.3 * (dict_get (dict_get material_dict material Map.empty) ''permittivity'' 1.0 - 1.0);
            alpha = 0.93 powr (if is_sheet then 2 * n else n)
        in (py_int (100 + 80 * cos (n - pi / 3)),
            py_int (100 + 80 * cos (n + pi)),
            py_int (100 + 80 * cos (n + pi / 3)),
            alpha))"

definition scale :: "(real \<Rightarrow> string) \<Rightarrow> editor \<Rightarrow> string list \<Rightarrow> pynum \<Rightarrow> editor" where
  "scale fstr oEditor objects factor =
     (if objects \<noteq> [] \<and> num_val factor \<noteq> 1.0 then
        issue oEditor ''Scale''
          [PList [PStr ''NAME:Selections'', PStr ''Selections:='', PStr (join '','' objects),
                  PStr ''NewPartsModelFlag:='', PStr ''Model''],
           PList [PStr ''NAME:ScaleParameters'',
                  PStr ''ScaleX:='', PStr (str_num fstr factor),
                  PStr ''ScaleY:='', PStr (str_num fstr factor),
                  PStr ''ScaleZ:='', PStr (str_num fstr factor)]]
      else oEditor)"

subsection \<open>\<open>match_layer\<close> and the regular expressions it builds\<close>

text \<open>
  \<open>re.escape\<close> (Python 3.7 and later) puts a backslash before each of the characters
  \<^verbatim>\<open>()[]{}?*+-|^$\.&~#\<close>, the space, and the tab, newline, carriage return, vertical tab
  and form feed; every other character stays as it is.
\<close>

definition re_special :: "char \<Rightarrow> bool" where
  "re_special c = (c \<in> set (''()[]{}?*+-|^$.&~# ''
                       @ [CHR 0x5C, CHR 0x09, CHR 0x0A, CHR 0x0D, CHR 0x0B, CHR 0x0C]))"

definition re_escape :: "string \<Rightarrow> string" where
  "re_escape s = concat (map (\<lambda>c. if re_special c then [CHR 0x5C, c] else [c]) s)"

text \<open>\<open>s.replace(r"\*", ".*")\<close>: every occurrence, found from the left, without overlap.\<close>

fun replace_escaped_star :: "string \<Rightarrow> string" where
  "replace_escaped_star (a # b # cs) =
     (if a = CHR 0x5C \<and> b = CHR ''*'' then ''.*'' @ replace_escaped_star cs
      else a # replace_escaped_star (b # cs))"
| "replace_escaped_star cs = cs"

text \<open>
  The patterns \<open>match_layer\<close> builds use four constructs of Python's \<open>re\<close>: \<open>^\<close> (the
  start of the string), \<open>$\<close> (the end of the string, or just before a newline that is
  the last character of the string), \<open>.*\<close> (any run of characters other than newline)
  and a character that stands for itself, written with a backslash when \<open>re.escape\<close>
  escaped it.
\<close>

datatype re_item = Bol | Eol | DotStar | Lit char

fun re_parse :: "string \<Rightarrow> re_item list" where
  "re_parse (a # b # cs) =
     (if a = CHR 0x5C then Lit b # re_parse cs
      else if a = CHR ''.'' \<and> b = CHR ''*'' then DotStar # re_parse cs
      else if a = CHR ''^'' then Bol # re_parse (b # cs)
      else if a = CHR ''$'' then Eol # re_parse (b # cs)
      else Lit a # re_parse (b # cs))"
| "re_parse [a] = (if a = CHR ''^'' then [Bol] else if a = CHR ''$'' then [Eol] else [Lit a])"
| "re_parse [] = []"

text \<open>
  \<open>re_match_at items at_start s\<close>: the items match a prefix of the rest \<open>s\<close> of the
  subject string; \<open>at_start\<close> says that nothing of the subject has been consumed yet.
  \<open>re.match\<close> looks for a match at the start of the string and does not ask the match
  to reach the end.
\<close>

fun re_match_at :: "re_item list \<Rightarrow> bool \<Rightarrow> string \<Rightarrow> bool" where
  "re_match_at [] at_start s = True"
| "re_match_at (Bol # r) at_start s = (at_start \<and> re_match_at r at_start s)"
| "re_match_at (Eol # r) at_start s = ((s = [] \<or> s = [CHR 0x0A]) \<and> re_match_at r at_start s)"
| "re_match_at (Lit c # r) at_start s =
     (case s of [] \<Rightarrow> False | d # t \<Rightarrow> d = c \<and> re_match_at r False t)"
| "re_match_at (DotStar # r) at_start s =
     (re_match_at r at_start s
      \<or> (case s of [] \<Rightarrow> False | d # t \<Rightarrow> d \<noteq> CHR 0x0A \<and> re_match_at (DotStar # r) False t))"

definition re_match :: "string \<Rightarrow> string \<Rightarrow> bool" where
  "re_match pattern s = re_match_at (re_parse pattern) True s"

definition match_layer :: "string \<Rightarrow> string \<Rightarrow> bool" where
  "match_layer layer_name layer_pattern =
     (let pattern = ''^'' @ replace_escaped_star (re_escape layer_pattern) @ ''$''
      in re_match pattern layer_name)"

text \<open>
  The matching the documentation of \<open>match_layer\<close> describes, for comparison with the
  function: \<open>*\<close> in the pattern stands for any substring, every other character for
  itself, and the whole name has to be matched.
\<close>

fun glob_match :: "string \<Rightarrow> string \<Rightarrow> bool" where
  "glob_match [] s = (s = [])"
| "glob_match (p # ps) s =
     (if p = CHR ''*'' then
        (glob_match ps s \<or> (case s of [] \<Rightarrow> False | d # t \<Rightarrow> glob_match (p # ps) t))
      else (case s of [] \<Rightarrow> False | d # t \<Rightarrow> d = p \<and> glob_match ps t))"

section \<open>\<open>cross_section_helpers.py\<close>\<close>

text \<open>
  The helpers of \<open>elmer_helpers\<close> that generate and classify solver input
  (\<open>sif_capacitance\<close>, \<open>sif_inductance\<close>, \<open>sif_circuit_definitions\<close>,
  \<open>use_london_equations\<close>) are not part of the two modules at hand, and neither are
  pandas' parser \<open>read_csv\<close>, numpy's matrix inverse, scipy's constants and Python's
  decoder of UTF-8 text. They are parameters of the model, collected in one record; each
  of the functions may raise. \<open>'j\<close> is the type of the configuration \<open>json_data\<close>.

  \<open>impedance_inductance\<close> stands for what pandas and numpy compute from the parsed table
  \<open>data\<close> of \<open>inductance.dat\<close>, the column names and the angular frequency:
  \<^verbatim>\<open>
  data.columns = [...]
  voltage = data["v_component(1) re"] + 1.0j * data["v_component(1) im"]
  current = data["i_component(1) re"] + 1.0j * data["i_component(1) im"]
  impedance = voltage / current
  l_matrix = np.array([np.imag(impedance) / angular_frequency])
  \<close>
  with every error the two libraries raise on the way (names that do not fit the table, a
  column that is missing or repeated). \<open>utf8_error\<close> is the error, if any, that reading
  the bytes of a file as UTF-8 text raises.
\<close>

type_synonym matrix = "real list list"

record 'j externals =
  use_london_equations :: "'j \<Rightarrow> pyerr + bool"
  sif_capacitance :: "'j \<Rightarrow> string \<Rightarrow> string \<Rightarrow> pynum \<Rightarrow> int \<Rightarrow> bool \<Rightarrow> pyerr + string"
  sif_inductance :: "'j \<Rightarrow> string \<Rightarrow> real \<Rightarrow> string \<Rightarrow> pyerr + string"
  sif_circuit_definitions :: "'j \<Rightarrow> pyerr + string"
  read_csv :: "string \<Rightarrow> pyerr + matrix"
  linalg_inv :: "matrix \<Rightarrow> pyerr + matrix"
  mu_0 :: real
  epsilon_0 :: real
  utf8_error :: "string \<Rightarrow> pyerr option"
  impedance_inductance :: "matrix \<Rightarrow> string list \<Rightarrow> real \<Rightarrow> pyerr + matrix"

text \<open>
  The keys of \<open>json_data\<close> that \<open>produce_cross_section_sif_files\<close> reads itself; a key
  that is absent (\<open>None\<close>) raises \<open>KeyError\<close>. Everything else of the configuration is
  in the record's extension.
\<close>

record json_data =
  sif_names :: "string list option"
  run_inductance_sim :: "bool option"

definition angular_frequency :: real where
  "angular_frequency = 500"

subsection \<open>Writing the solver input\<close>

text \<open>
  What \<open>produce_cross_section_sif_files\<close> does to the file system is the sequence of
  its events: the folder is made, a file of the folder is opened for writing (created, or
  emptied when it was there), a text is written to the open file. Whether the operating
  system lets an operation through is not the function's to decide: \<open>mkdir_error\<close>,
  \<open>open_error\<close> and \<open>write_error\<close> give the error, if any, that the system raises for
  an operation after the events so far (a path that is a file, a directory that is
  missing, a permission that is not given, a disk that is full). An exception keeps what
  was done before it, so every function returns the file system together with its result.
\<close>

datatype fs_event = Mkdir string | Opened string string | Written string string string

record filesystem =
  events :: "fs_event list"
  mkdir_error :: "fs_event list \<Rightarrow> string \<Rightarrow> pyerr option"
  open_error :: "fs_event list \<Rightarrow> string \<Rightarrow> string \<Rightarrow> pyerr option"
  write_error :: "fs_event list \<Rightarrow> string \<Rightarrow> string \<Rightarrow> string \<Rightarrow> pyerr option"

text \<open>\<open>folder_path.mkdir(exist_ok=True, parents=True)\<close>\<close>

definition mkdir :: "filesystem \<Rightarrow> string \<Rightarrow> filesystem \<times> (pyerr + unit)" where
  "mkdir fs folder_path =
     (case mkdir_error fs (events fs) folder_path of
        Some e \<Rightarrow> (fs, Inl e)
      | None \<Rightarrow> (fs\<lparr>events := events fs @ [Mkdir folder_path]\<rparr>, Inr ()))"

text \<open>
  The local function \<open>save\<close>: \<open>open\<close> for writing, \<open>f.write(content)\<close> and the end
  of the \<open>with\<close> block, then the file name as the result. A write that fails leaves the
  file opened.
\<close>

definition save ::
  "string \<Rightarrow> filesystem \<Rightarrow> string \<Rightarrow> string \<Rightarrow> filesystem \<times> (pyerr + string)" where
  "save folder_path fs file_name content =
     (case open_error fs (events fs) folder_path file_name of
        Some e \<Rightarrow> (fs, Inl e)
      | None \<Rightarrow>
          (let fs1 = fs\<lparr>events := events fs @ [Opened folder_path file_name]\<rparr> in
           case write_error fs1 (events fs1) folder_path file_name content of
             Some e \<Rightarrow> (fs1, Inl e)
           | None \<Rightarrow>
               (fs1\<lparr>events := events fs1 @ [Written folder_path file_name content]\<rparr>,
                Inr file_name)))"

definition dict_item :: "'a option \<Rightarrow> pyerr + 'a" where
  "dict_item v = (case v of None \<Rightarrow> Inl KeyError | Some x \<Rightarrow> Inr x)"

text \<open>
  The second half of \<open>produce_cross_section_sif_files\<close>, the block under
  \<open>if json_data["run_inductance_sim"]\<close>: it starts with the list \<open>sif_files\<close> of the
  first half and returns that list, with the name of a second file when it wrote one.
\<close>

definition inductance_sif_files ::
  "('a json_data_scheme) externals \<Rightarrow> filesystem \<Rightarrow> 'a json_data_scheme \<Rightarrow> string
     \<Rightarrow> string list \<Rightarrow> string list \<Rightarrow> filesystem \<times> (pyerr + string list)" where
  "inductance_sif_files env fs2 json_data folder_path names sif_files =
     (case dict_item (run_inductance_sim json_data) of
        Inl e \<Rightarrow> (fs2, Inl e)
      | Inr run_inductance \<Rightarrow>
        if run_inductance then
          (case use_london_equations env json_data of
             Inl e \<Rightarrow> (fs2, Inl e)
           | Inr london \<Rightarrow>
             if london then
               (case sif_circuit_definitions env json_data of
                  Inl e \<Rightarrow> (fs2, Inl e)
                | Inr definitions \<Rightarrow>
                  (case save folder_path fs2 ''inductance.definitions'' definitions of
                     (fs3, Inl e) \<Rightarrow> (fs3, Inl e)
                   | (fs3, Inr circuit_definitions_file) \<Rightarrow>
                       (case py_index names 1 of
                          Inl e \<Rightarrow> (fs3, Inl e)
                        | Inr name1 \<Rightarrow>
                            (case sif_inductance env json_data folder_path angular_frequency
                                    circuit_definitions_file of
                               Inl e \<Rightarrow> (fs3, Inl e)
                             | Inr content1 \<Rightarrow>
                                 (case save folder_path fs3 (name1 @ ''.sif'') content1 of
                                    (fs4, Inl e) \<Rightarrow> (fs4, Inl e)
                                  | (fs4, Inr file1) \<Rightarrow>
                                      (fs4, Inr (sif_files @ [file1])))))))
             else
               (case py_index names 1 of
                  Inl e \<Rightarrow> (fs2, Inl e)
                | Inr name1 \<Rightarrow>
                    (case sif_capacitance env json_data folder_path name1 (PyInt 0) 2 True of
                       Inl e \<Rightarrow> (fs2, Inl e)
                     | Inr content1 \<Rightarrow>
                         (case save folder_path fs2 (name1 @ ''.sif'') content1 of
                            (fs3, Inl e) \<Rightarrow> (fs3, Inl e)
                          | (fs3, Inr file1) \<Rightarrow> (fs3, Inr (sif_files @ [file1]))))))
        else (fs2, Inr sif_files))"

definition produce_cross_section_sif_files ::
  "('a json_data_scheme) externals \<Rightarrow> filesystem \<Rightarrow> 'a json_data_scheme \<Rightarrow> string
     \<Rightarrow> filesystem \<times> (pyerr + string list)" where
  "produce_cross_section_sif_files env fs0 json_data folder_path =
     (case mkdir fs0 folder_path of
        (fs1, Inl e) \<Rightarrow> (fs1, Inl e)
      | (fs1, Inr made) \<Rightarrow>
          (case dict_item (sif_names json_data) of
             Inl e \<Rightarrow> (fs1, Inl e)
           | Inr names \<Rightarrow>
               (case py_index names 0 of
                  Inl e \<Rightarrow> (fs1, Inl e)
                | Inr name0 \<Rightarrow>
                    (case sif_capacitance env json_data folder_path name0 (PyInt 0) 2 False of
                       Inl e \<Rightarrow> (fs1, Inl e)
                     | Inr content0 \<Rightarrow>
                         (case save folder_path fs1 (name0 @ ''.sif'') content0 of
                            (fs2, Inl e) \<Rightarrow> (fs2, Inl e)
                          | (fs2, Inr file0) \<Rightarrow>
                              inductance_sif_files env fs2 json_data folder_path names
                                [file0])))))"

subsection \<open>Reading the solver output\<close>

text \<open>
  The output folder maps the name of each file in it to the file's bytes. Reading a file
  that is not there raises \<open>FileNotFoundError\<close>, from \<open>read_csv\<close> as from \<open>open\<close>.
\<close>

type_synonym folder = "string \<rightharpoonup> string"

definition open_read :: "folder \<Rightarrow> string \<Rightarrow> pyerr + string" where
  "open_read dir file_name =
     (case dir file_name of None \<Rightarrow> Inl FileNotFoundError | Some content \<Rightarrow> Inr content)"

definition read_csv_file :: "'j externals \<Rightarrow> folder \<Rightarrow> string \<Rightarrow> pyerr + matrix" where
  "read_csv_file env dir file_name =
     (case open_read dir file_name of Inl e \<Rightarrow> Inl e | Inr content \<Rightarrow> read_csv env content)"

text \<open>
  Reading a file opened as text with \<open>encoding="utf-8"\<close>: bytes that are no UTF-8 text
  raise the decoder's error, and every line end (carriage return and newline, or a
  carriage return alone) is read as one newline. The text is kept as its UTF-8 bytes; the
  ASCII strings the script looks for are found in the bytes where they are in the text.
\<close>

fun universal_newlines :: "string \<Rightarrow> string" where
  "universal_newlines (a # b # cs) =
     (if a = CHR 0x0D then
        (if b = CHR 0x0A then CHR 0x0A # universal_newlines cs
         else CHR 0x0A # universal_newlines (b # cs))
      else a # universal_newlines (b # cs))"
| "universal_newlines [a] = (if a = CHR 0x0D then [CHR 0x0A] else [a])"
| "universal_newlines [] = []"

definition read_text :: "'j externals \<Rightarrow> string \<Rightarrow> pyerr + string" where
  "read_text env content =
     (case utf8_error env content of
        Some e \<Rightarrow> Inl e
      | None \<Rightarrow> Inr (universal_newlines content))"

text \<open>\<open>f.readlines()\<close>: the lines of a text, each with the newline that ends it.\<close>

fun readlines :: "string \<Rightarrow> string list" where
  "readlines [] = []"
| "readlines (c # cs) =
     (if c = CHR 0x0A then [c] # readlines cs
      else (case readlines cs of [] \<Rightarrow> [[c]] | l # ls \<Rightarrow> (c # l) # ls))"

text \<open>\<open>sub in s\<close> for strings.\<close>

fun contains :: "string \<Rightarrow> string \<Rightarrow> bool" where
  "contains sub [] = (sub = [])"
| "contains sub (c # cs) = (take (length sub) (c # cs) = sub \<or> contains sub cs)"

text \<open>
  \<open>s.split(sep)\<close> for a separator that is not empty (in \<open>acc\<close> the field read so far,
  reversed).
\<close>

function split_acc :: "string \<Rightarrow> string \<Rightarrow> string \<Rightarrow> string list" where
  "split_acc sep acc s =
     (if s = [] then [rev acc]
      else if sep \<noteq> [] \<and> take (length sep) s = sep
        then rev acc # split_acc sep [] (drop (length sep) s)
      else split_acc sep (hd s # acc) (tl s))"
  by pat_completeness auto
termination
  by (relation "measure (\<lambda>(sep, acc, s). length s)") auto

definition split :: "string \<Rightarrow> string \<Rightarrow> string list" where
  "split s sep = split_acc sep [] s"

text \<open>The column names: \<open>line.split("res: ")[1].replace("\n", "")\<close> of each line with \<open>res:\<close>.\<close>

definition column_name :: "string \<Rightarrow> pyerr + string" where
  "column_name line =
     (case py_index (split line ''res: '') 1 of
        Inl e \<Rightarrow> Inl e
      | Inr field \<Rightarrow> Inr (filter (\<lambda>c. c \<noteq> CHR 0x0A) field))"

definition column_names :: "string \<Rightarrow> pyerr + string list" where
  "column_names content =
     collect column_name (filter (\<lambda>line. contains ''res:'' line) (readlines content))"

definition london_l_matrix :: "folder \<Rightarrow> 'j externals \<Rightarrow> pyerr + matrix" where
  "london_l_matrix dir env =
     (let l_matrix_file_name = ''inductance.dat'';
          l_matrix_file =
            (if dir l_matrix_file_name = None then l_matrix_file_name @ ''.0''
             else l_matrix_file_name)
      in case read_csv_file env dir l_matrix_file of
           Inl e \<Rightarrow> Inl e
         | Inr data \<Rightarrow>
         (case open_read dir (l_matrix_file_name @ ''.names'') of
            Inl e \<Rightarrow> Inl e
          | Inr bytes \<Rightarrow>
          (case read_text env bytes of
             Inl e \<Rightarrow> Inl e
           | Inr names \<Rightarrow>
           (case column_names names of
              Inl e \<Rightarrow> Inl e
            | Inr columns \<Rightarrow> impedance_inductance env data columns angular_frequency))))"

definition capacitance_l_matrix :: "folder \<Rightarrow> 'j externals \<Rightarrow> pyerr + matrix" where
  "capacitance_l_matrix dir env =
     (case read_csv_file env dir ''capacitance0.dat'' of
        Inl e \<Rightarrow> Inl e
      | Inr c0_matrix \<Rightarrow>
        (case linalg_inv env c0_matrix of
           Inl e \<Rightarrow> Inl e
         | Inr inv_c0 \<Rightarrow> Inr (map (map (\<lambda>x. mu_0 env * epsilon_0 env * x)) inv_c0)))"

text \<open>The returned dictionary, with \<open>None\<close> as Python's \<open>None\<close>.\<close>

record matrices =
  Cs :: "matrix option"
  Ls :: "matrix option"

definition get_cross_section_capacitance_and_inductance ::
  "'j externals \<Rightarrow> 'j \<Rightarrow> folder \<Rightarrow> pyerr + matrices" where
  "get_cross_section_capacitance_and_inductance env json_data folder_path =
     (case read_csv_file env folder_path ''capacitance.dat'' of
        Inl e \<Rightarrow> (if e = FileNotFoundError then Inr \<lparr>Cs = None, Ls = None\<rparr> else Inl e)
      | Inr c_matrix \<Rightarrow>
        (case (case use_london_equations env json_data of
                 Inl e \<Rightarrow> Inl e
               | Inr london \<Rightarrow>
                   if london then london_l_matrix folder_path env
                   else capacitance_l_matrix folder_path env) of
           Inl e \<Rightarrow>
             (if e = FileNotFoundError then Inr \<lparr>Cs = Some c_matrix, Ls = None\<rparr> else Inl e)
         | Inr l_matrix \<Rightarrow> Inr \<lparr>Cs = Some c_matrix, Ls = Some l_matrix\<rparr>))"

section \<open>Properties of \<open>geometry.py\<close>\<close>

subsection \<open>Auxiliary facts\<close>

lemma issue_new_calls: "new_calls ed (issue ed n a) = [Call n a]"
  by (simp add: new_calls_def issue_def)

lemma is_zero_py_ne: "is_zero v \<Longrightarrow> \<not> py_ne v 0"
  by (cases v) (auto simp: is_zero_def)

lemma collect_Inr_iff:
  "collect f xs = Inr ys \<longleftrightarrow> map f xs = map Inr ys"
proof (induction xs arbitrary: ys)
  case Nil
  then show ?case by auto
next
  case (Cons x xs)
  show ?case
  proof (cases "f x")
    case (Inl e)
    then show ?thesis by (cases ys) auto
  next
    case fx: (Inr y)
    show ?thesis
    proof (cases "collect f xs")
      case (Inl e)
      with Cons.IH have "\<And>zs. map f xs \<noteq> map Inr zs" by simp
      with Inl fx show ?thesis by (cases ys) auto
    next
      case (Inr zs)
      with Cons.IH [of zs] have "map f xs = map Inr zs" by simp
      with Inr fx show ?thesis by (cases ys) auto
    qed
  qed
qed

lemma polyline_point_total:
  "3 \<le> length p \<Longrightarrow> \<exists>v. polyline_point fstr units p = Inr v"
  by (cases p) (auto simp: polyline_point_def py_index_def)

lemma collect_total:
  "(\<And>x. x \<in> set xs \<Longrightarrow> \<exists>y. f x = Inr y) \<Longrightarrow> \<exists>ys. collect f xs = Inr ys"
proof (induction xs)
  case Nil
  then show ?case by simp
next
  case (Cons x xs)
  then obtain y where "f x = Inr y" by auto
  moreover from Cons obtain ys where "collect f xs = Inr ys" by auto
  ultimately show ?case by simp
qed

lemma create_polygon_total:
  assumes "points \<noteq> []" and "list_all (\<lambda>p. 3 \<le> length p) points"
  shows "\<exists>args. create_polygon fstr oEditor name points units
                 = Inr (issue oEditor ''CreatePolyline'' args)"
proof -
  from assms(1) have p0: "py_index points 0 = Inr (hd points)"
    by (cases points) (simp_all add: py_index_def)
  from assms have "\<And>p. p \<in> set (points @ [hd points]) \<Longrightarrow> 3 \<le> length p"
    by (cases points) (auto simp: list_all_iff)
  then have "\<And>p. p \<in> set (points @ [hd points]) \<Longrightarrow> \<exists>v. polyline_point fstr units p = Inr v"
    by (rule polyline_point_total)
  then obtain pts where "collect (polyline_point fstr units) (points @ [hd points]) = Inr pts"
    using collect_total by blast
  with p0 show ?thesis
    unfolding create_polygon_def by (simp del: upt_Suc) blast
qed

lemma create_polygon_no_points:
  "create_polygon fstr oEditor name [] units = Inl IndexError"
  by (simp add: create_polygon_def py_index_def)

lemma collect_last_hd:
  assumes "collect f (xs @ [hd xs]) = Inr ys" and "xs \<noteq> []"
  shows "length ys = Suc (length xs) \<and> last ys = hd ys"
proof -
  from assms(1) have m: "map f (xs @ [hd xs]) = map Inr ys"
    by (simp add: collect_Inr_iff)
  then have len: "length ys = Suc (length xs)"
    by (metis length_map length_append_singleton)
  from assms(2) obtain x xs' where xs: "xs = x # xs'" by (cases xs) auto
  from len obtain y ys' where ys: "ys = y # ys'" by (cases ys) auto
  from m xs ys have "f x = Inr y" by simp
  moreover from m have "f (last (xs @ [hd xs])) = Inr (last ys)"
    using len by (metis last_map list.map_disc_iff snoc_eq_iff_butlast)
  ultimately have "last ys = y" using xs by simp
  with len ys show ?thesis by simp
qed

lemma pi_ge_3: "3 \<le> pi"
proof -
  have "sin (pi / 6) \<le> pi / 6" by (rule sin_x_le_x) simp
  then show ?thesis by (simp add: sin_30)
qed

lemma sin_poly_16:
  "(\<Sum>m<16. sin_coeff m * (x::real) ^ m)
     = x - x^3 / 6 + x^5 / 120 - x^7 / 5040 + x^9 / 362880 - x^11 / 39916800
       + x^13 / 6227020800 - x^15 / 1307674368000"
proof -
  have lt: "{..<16::nat} = {0,1,2,3,4,5,6,7,8,9,10,11,12,13,14,15}"
    by (auto simp: lessThan_def) arith
  show ?thesis
    unfolding lt by (simp add: sin_coeff_def fact_numeral)
qed

lemma sin_3135_bounds: "0.0065 \<le> sin (3.135::real) \<and> sin (3.135::real) \<le> 0.0067"
proof -
  define P :: real where "P = (\<Sum>m<16. sin_coeff m * 3.135 ^ m)"
  have P_lo: "0.00655 \<le> P"
    unfolding P_def sin_poly_16 by (simp add: power_divide)
  have P_hi: "P \<le> 0.00665"
    unfolding P_def sin_poly_16 by (simp add: power_divide)
  have "\<bar>sin (3.135::real) - P\<bar> \<le> inverse (fact 16) * \<bar>3.135\<bar> ^ 16"
    unfolding P_def by (rule Maclaurin_sin_bound)
  also have "\<dots> \<le> 0.00005"
    by (simp add: fact_numeral power_divide)
  finally have "\<bar>sin (3.135::real) - P\<bar> \<le> 0.00005" .
  then have "sin (3.135::real) - P \<le> 0.00005" and "P - sin (3.135::real) \<le> 0.00005"
    by linarith+
  with P_lo P_hi show ?thesis
    by auto
qed

lemma cos_3135_bounds: "- 1 < cos (3.135::real) \<and> cos (3.135::real) \<le> - 0.9999"
proof -
  let ?s = "sin (3.135::real)" and ?c = "cos (3.135::real)"
  have s: "0.0065 \<le> ?s" "?s \<le> 0.0067"
    using sin_3135_bounds by auto
  have c_neg: "?c < 0"
  proof -
    have "0 < cos (3.135 - pi)"
      using pi_ge_3 pi_less_4 by (intro cos_gt_zero_pi) auto
    then show ?thesis by simp
  qed
  have sq: "?c\<^sup>2 = 1 - ?s\<^sup>2"
    by (rule cos_squared_eq)
  have "?s\<^sup>2 \<le> 0.0067\<^sup>2"
    using s by (intro power_mono) auto
  then have hi: "0.9999\<^sup>2 \<le> ?c\<^sup>2"
    unfolding sq by (simp add: power2_eq_square)
  have "0 < ?s\<^sup>2" using s by simp
  then have lo: "?c\<^sup>2 < 1\<^sup>2" unfolding sq by simp
  from lo have "\<bar>?c\<bar> < 1"
    by (metis abs_1 abs_le_square_iff abs_of_nonneg linorder_not_le zero_le_one)
  moreover from hi have "0.9999 \<le> \<bar>?c\<bar>"
    using abs_le_square_iff [of "0.9999::real" ?c] by simp
  ultimately show ?thesis using c_neg by auto
qed

lemma sqrt_3_bounds: "1.7 \<le> sqrt (3::real) \<and> sqrt (3::real) \<le> 1.8"
proof
  show "1.7 \<le> sqrt (3::real)"
    by (rule real_le_rsqrt) (simp add: power2_eq_square)
  show "sqrt (3::real) \<le> 1.8"
    by (rule real_le_lsqrt) (simp_all add: power2_eq_square)
qed

lemma py_int_eq: "real_of_int k \<le> r \<Longrightarrow> r < real_of_int k + 1 \<Longrightarrow> 0 \<le> k \<Longrightarrow> py_int r = k"
  by (simp add: py_int_def floor_unique)

lemma silicon_channels:
  "py_int (100 + 80 * cos (3.135 - pi / 3)) = 60
   \<and> py_int (100 + 80 * cos (3.135 + pi)) = 179
   \<and> py_int (100 + 80 * cos (3.135 + pi / 3)) = 59
   \<and> py_int (100 + 80 * cos 3.135) = 20"
proof -
  define s c t :: real where "s = sin 3.135" and "c = cos 3.135" and "t = s * sqrt 3"
  have s: "0.0065 \<le> s" "s \<le> 0.0067"
    using sin_3135_bounds by (auto simp: s_def)
  have c: "- 1 < c" "c \<le> - 0.9999"
    using cos_3135_bounds by (auto simp: c_def)
  have "0.0065 * 1.7 \<le> s * sqrt 3"
    using s sqrt_3_bounds by (intro mult_mono) auto
  moreover have "s * sqrt 3 \<le> 0.0067 * 1.8"
    using s sqrt_3_bounds by (intro mult_mono) auto
  ultimately have t: "0.011 \<le> t" "t \<le> 0.0121"
    by (auto simp: t_def)
  have r: "cos (3.135 - pi / 3) = c / 2 + t / 2"
    by (simp add: cos_diff cos_60 sin_60 s_def c_def t_def)
  have b: "cos (3.135 + pi / 3) = c / 2 - t / 2"
    by (simp add: cos_add cos_60 sin_60 s_def c_def t_def)
  have g: "cos (3.135 + pi) = - c"
    by (simp add: c_def)
  have "py_int (100 + 80 * (c / 2 + t / 2)) = 60"
    using c t by (intro py_int_eq) auto
  moreover have "py_int (100 + 80 * (- c)) = 179"
    using c by (intro py_int_eq) auto
  moreover have "py_int (100 + 80 * (c / 2 - t / 2)) = 59"
    using c t by (intro py_int_eq) auto
  moreover have "py_int (100 + 80 * c) = 20"
    using c by (intro py_int_eq) auto
  ultimately show ?thesis
    unfolding r b g by (simp add: c_def)
qed

subsection \<open>\<open>format_position\<close>\<close>

text \<open>
  C7: \<open>format_position\<close> turns a bare number into its decimal string followed by the
  unit, returns a string argument unchanged, and formats the elements of a list, nested
  lists included; so \<open>format_position(5, "um")\<close> is \<open>"5um"\<close>,
  \<open>format_position([1,2], "um")\<close> is \<open>["1um","2um"]\<close> and
  \<open>format_position("3um", "um")\<close> is \<open>"3um"\<close>. (An integer prints in decimal; the text of
  a float is what Python's \<open>str\<close> gives, here \<open>fstr\<close>.)
\<close>

theorem format_position_cases:
  "format_position fstr (PNum (PyInt i)) units = PStr (str_int i @ units)
   \<and> format_position fstr (PNum (PyFloat r)) units = PStr (fstr r @ units)
   \<and> format_position fstr (PStr s) units = PStr s
   \<and> format_position fstr (PList xs) units = PList (map (\<lambda>p. format_position fstr p units) xs)
   \<and> format_position fstr (PList [PList xs, PList ys]) units
       = PList [PList (map (\<lambda>p. format_position fstr p units) xs),
                PList (map (\<lambda>p. format_position fstr p units) ys)]
   \<and> format_position fstr (PNum (PyInt 5)) ''um'' = PStr ''5um''
   \<and> format_position fstr (PList [PNum (PyInt 1), PNum (PyInt 2)]) ''um''
       = PList [PStr ''1um'', PStr ''2um'']
   \<and> format_position fstr (PStr ''3um'') ''um'' = PStr ''3um''"
  by (simp add: str_int_def digit_char_def)

theorem format_position_cases_witness:
  "format_position (\<lambda>r. ''2.5'') (PNum (PyInt (- 12))) ''mm'' = PStr ''-12mm''
   \<and> format_position (\<lambda>r. ''2.5'') (PNum (PyFloat 2.5)) ''mm'' = PStr ''2.5mm''
   \<and> format_position (\<lambda>r. ''2.5'') (PStr ''w_gap'') ''mm'' = PStr ''w_gap''
   \<and> format_position (\<lambda>r. ''2.5'')
        (PList [PList [PNum (PyInt 0), PStr ''h''], PList [PNum (PyFloat 2.5)]]) ''mm''
       = PList [PList [PStr ''0mm'', PStr ''h''], PList [PStr ''2.5mm'']]"
  using format_position_cases
    [of "\<lambda>r. ''2.5''" "- 12" "''mm''" "2.5" "''w_gap''" "[PNum (PyInt 0), PStr ''h'']"
        "[PNum (PyFloat 2.5)]"]
  by (simp add: str_int_def digit_char_def)

subsection \<open>The shape creators\<close>

text \<open>
  C1, as stated, fails for \<open>create_polygon\<close>: the function has no guard at all. The
  rectangle of width 0 and height 5 at the origin is skipped by \<open>create_rectangle\<close>,
  while \<open>create_polygon\<close> with the four corners of the same rectangle issues
  \<open>CreatePolyline\<close>.
\<close>

theorem create_polygon_zero_width_counterexample:
  "create_rectangle (\<lambda>r. ''0.0'') \<lparr>calls = [], paste_reply = (\<lambda>cs. [])\<rparr> ''r''
      (PNum (PyInt 0)) (PNum (PyInt 0)) (PNum (PyInt 0)) (PNum (PyInt 0)) (PNum (PyInt 5))
      ''Z'' ''um''
     = \<lparr>calls = [], paste_reply = (\<lambda>cs. [])\<rparr>
   \<and> map_sum id (\<lambda>e. map call_name (calls e))
       (create_polygon (\<lambda>r. ''0.0'') \<lparr>calls = [], paste_reply = (\<lambda>cs. [])\<rparr> ''r''
          [[PNum (PyInt 0), PNum (PyInt 0), PNum (PyInt 0)],
           [PNum (PyInt 0), PNum (PyInt 0), PNum (PyInt 0)],
           [PNum (PyInt 0), PNum (PyInt 5), PNum (PyInt 0)],
           [PNum (PyInt 0), PNum (PyInt 5), PNum (PyInt 0)]] ''um'')
     = Inr [''CreatePolyline'']"
  by (simp add: create_rectangle_def create_polygon_def py_index_def polyline_point_def issue_def)

text \<open>
  C1, amended: \<open>create_rectangle\<close> issues no call and raises no error when the width or
  the height is exactly zero, and neither does \<open>create_box\<close> when one of its three
  extents is exactly zero. \<open>create_polygon\<close> takes no dimension and has no such guard: for
  every list of points that is not empty, each point with three coordinates, it issues one
  \<open>CreatePolyline\<close> call.
\<close>

theorem zero_dimension_shapes:
  "(is_zero w \<or> is_zero h \<longrightarrow>
      create_rectangle fstr oEditor name x y z w h axis units = oEditor)
   \<and> (is_zero sx \<or> is_zero sy \<or> is_zero sz \<longrightarrow>
      create_box fstr oEditor name x y z sx sy sz units = oEditor)
   \<and> (points \<noteq> [] \<and> list_all (\<lambda>p. 3 \<le> length p) points \<longrightarrow>
      (\<exists>args. create_polygon fstr oEditor name points units
                = Inr (issue oEditor ''CreatePolyline'' args)))"
  using create_polygon_total [of points fstr oEditor name units]
  by (auto simp: create_rectangle_def create_box_def dest: is_zero_py_ne)

theorem zero_dimension_shapes_witness:
  "create_rectangle (\<lambda>r. ''0.0'') \<lparr>calls = [], paste_reply = (\<lambda>cs. [])\<rparr> ''r''
      (PNum (PyInt 1)) (PNum (PyInt 2)) (PNum (PyInt 3)) (PNum (PyFloat 0)) (PNum (PyInt 5))
      ''Z'' ''um''
     = \<lparr>calls = [], paste_reply = (\<lambda>cs. [])\<rparr>
   \<and> create_box (\<lambda>r. ''0.0'') \<lparr>calls = [], paste_reply = (\<lambda>cs. [])\<rparr> ''b''
      (PNum (PyInt 1)) (PNum (PyInt 2)) (PNum (PyInt 3))
      (PNum (PyInt 4)) (PNum (PyInt 5)) (PNum (PyInt 0)) ''um''
     = \<lparr>calls = [], paste_reply = (\<lambda>cs. [])\<rparr>
   \<and> (\<exists>args. create_polygon (\<lambda>r. ''0.0'') \<lparr>calls = [], paste_reply = (\<lambda>cs. [])\<rparr> ''p''
          [[PNum (PyInt 0), PNum (PyInt 0), PNum (PyInt 0)],
           [PNum (PyInt 4), PNum (PyInt 0), PNum (PyInt 0)],
           [PNum (PyInt 4), PNum (PyInt 3), PNum (PyInt 0)]] ''um''
        = Inr (issue \<lparr>calls = [], paste_reply = (\<lambda>cs. [])\<rparr> ''CreatePolyline'' args))"
  using zero_dimension_shapes
    [of "PNum (PyFloat 0)" "PNum (PyInt 5)" "\<lambda>r. ''0.0''"
        "\<lparr>calls = [], paste_reply = (\<lambda>cs. [])\<rparr>" "''r''"
        "PNum (PyInt 1)" "PNum (PyInt 2)" "PNum (PyInt 3)" "''Z''" "''um''"
        "PNum (PyInt 4)" "PNum (PyInt 5)" "PNum (PyInt 0)"
        "[[PNum (PyInt 0), PNum (PyInt 0), PNum (PyInt 0)],
           [PNum (PyInt 4), PNum (PyInt 0), PNum (PyInt 0)],
           [PNum (PyInt 4), PNum (PyInt 3), PNum (PyInt 0)]]"]
    zero_dimension_shapes
    [of "PNum (PyFloat 0)" "PNum (PyInt 5)" "\<lambda>r. ''0.0''"
        "\<lparr>calls = [], paste_reply = (\<lambda>cs. [])\<rparr>" "''b''"
        "PNum (PyInt 1)" "PNum (PyInt 2)" "PNum (PyInt 3)" "''Z''" "''um''"
        "PNum (PyInt 4)" "PNum (PyInt 5)" "PNum (PyInt 0)"
        "[[PNum (PyInt 0), PNum (PyInt 0), PNum (PyInt 0)],
           [PNum (PyInt 4), PNum (PyInt 0), PNum (PyInt 0)],
           [PNum (PyInt 4), PNum (PyInt 3), PNum (PyInt 0)]]"]
    zero_dimension_shapes
    [of "PNum (PyFloat 0)" "PNum (PyInt 5)" "\<lambda>r. ''0.0''"
        "\<lparr>calls = [], paste_reply = (\<lambda>cs. [])\<rparr>" "''p''"
        "PNum (PyInt 1)" "PNum (PyInt 2)" "PNum (PyInt 3)" "''Z''" "''um''"
        "PNum (PyInt 4)" "PNum (PyInt 5)" "PNum (PyInt 0)"
        "[[PNum (PyInt 0), PNum (PyInt 0), PNum (PyInt 0)],
           [PNum (PyInt 4), PNum (PyInt 0), PNum (PyInt 0)],
           [PNum (PyInt 4), PNum (PyInt 3), PNum (PyInt 0)]]"]
  by (simp add: is_zero_def)

text \<open>
  C10: when \<open>create_polygon\<close> is given a list of points that is not empty, the
  \<open>CreatePolyline\<close> command it issues has \<open>len(points) + 1\<close> point entries, the entry of
  the first point once more as the last one, and \<open>len(points)\<close> line segments, the one at
  position \<open>i\<close> starting at index \<open>i\<close>. The command is issued whenever every point has
  three coordinates.
\<close>

theorem create_polygon_closed_polyline:
  assumes "points \<noteq> []"
  shows "(list_all (\<lambda>p. 3 \<le> length p) points \<longrightarrow>
            (\<exists>ed'. create_polygon fstr oEditor name points units = Inr ed'))
     \<and> (\<forall>ed'. create_polygon fstr oEditor name points units = Inr ed' \<longrightarrow>
          (\<exists>pts segs.
             new_calls oEditor ed' =
               [Call ''CreatePolyline''
                  [PList [PStr ''NAME:PolylineParameters'',
                          PStr ''IsPolylineCovered:='', PBool True,
                          PStr ''IsPolylineClosed:='', PBool True,
                          PList (PStr ''NAME:PolylinePoints'' # pts),
                          PList (PStr ''NAME:PolylineSegments'' # segs),
                          polyline_xsection units],
                   PList [PStr ''NAME:Attributes'', PStr ''Name:='', PStr name,
                          PStr ''Flags:='', PStr '''',
                          PStr ''PartCoordinateSystem:='', PStr ''Global'']]]
             \<and> length pts = length points + 1
             \<and> map (polyline_point fstr units) (points @ [hd points]) = map Inr pts
             \<and> last pts = hd pts
             \<and> length segs = length points
             \<and> segs = map (\<lambda>i. PList [PStr ''NAME:PLSegment'', PStr ''SegmentType:='',
                                       PStr ''Line'', PStr ''StartIndex:='', PNum (PyInt (int i)),
                                       PStr ''NoOfPoints:='', PNum (PyInt 2)])
                         [0 ..< length points]))"
proof (intro conjI impI allI)
  assume "list_all (\<lambda>p. 3 \<le> length p) points"
  with assms show "\<exists>ed'. create_polygon fstr oEditor name points units = Inr ed'"
    using create_polygon_total [of points fstr oEditor name units] by blast
next
  fix ed'
  assume ok: "create_polygon fstr oEditor name points units = Inr ed'"
  from assms have p0: "py_index points 0 = Inr (hd points)"
    by (cases points) (simp_all add: py_index_def)
  from ok p0 obtain pts where
    pts: "collect (polyline_point fstr units) (points @ [hd points]) = Inr pts"
    by (cases "collect (polyline_point fstr units) (points @ [hd points])")
      (simp_all add: create_polygon_def)
  let ?segs = "map polyline_segment [0 ..< length points]"
  from ok p0 pts have ed': "ed' = issue oEditor ''CreatePolyline''
      [PList [PStr ''NAME:PolylineParameters'',
              PStr ''IsPolylineCovered:='', PBool True,
              PStr ''IsPolylineClosed:='', PBool True,
              PList (PStr ''NAME:PolylinePoints'' # pts),
              PList (PStr ''NAME:PolylineSegments'' # ?segs),
              polyline_xsection units],
       PList [PStr ''NAME:Attributes'', PStr ''Name:='', PStr name,
              PStr ''Flags:='', PStr '''',
              PStr ''PartCoordinateSystem:='', PStr ''Global'']]"
    by (simp add: create_polygon_def)
  from pts assms have shape: "length pts = Suc (length points) \<and> last pts = hd pts"
    by (rule collect_last_hd)
  from pts have m: "map (polyline_point fstr units) (points @ [hd points]) = map Inr pts"
    by (simp add: collect_Inr_iff)
  have segs: "?segs = map (\<lambda>i. PList [PStr ''NAME:PLSegment'', PStr ''SegmentType:='',
                                       PStr ''Line'', PStr ''StartIndex:='', PNum (PyInt (int i)),
                                       PStr ''NoOfPoints:='', PNum (PyInt 2)])
                         [0 ..< length points]"
    by (simp add: polyline_segment_def)
  show "\<exists>pts segs.
             new_calls oEditor ed' =
               [Call ''CreatePolyline''
                  [PList [PStr ''NAME:PolylineParameters'',
                          PStr ''IsPolylineCovered:='', PBool True,
                          PStr ''IsPolylineClosed:='', PBool True,
                          PList (PStr ''NAME:PolylinePoints'' # pts),
                          PList (PStr ''NAME:PolylineSegments'' # segs),
                          polyline_xsection units],
                   PList [PStr ''NAME:Attributes'', PStr ''Name:='', PStr name,
                          PStr ''Flags:='', PStr '''',
                          PStr ''PartCoordinateSystem:='', PStr ''Global'']]]
             \<and> length pts = length points + 1
             \<and> map (polyline_point fstr units) (points @ [hd points]) = map Inr pts
             \<and> last pts = hd pts
             \<and> length segs = length points
             \<and> segs = map (\<lambda>i. PList [PStr ''NAME:PLSegment'', PStr ''SegmentType:='',
                                       PStr ''Line'', PStr ''StartIndex:='', PNum (PyInt (int i)),
                                       PStr ''NoOfPoints:='', PNum (PyInt 2)])
                         [0 ..< length points]"
    apply (rule exI [of _ pts])
    apply (rule exI [of _ ?segs])
    using shape m segs by (simp add: ed' issue_new_calls del: upt_Suc)
qed

theorem create_polygon_closed_polyline_witness:
  "create_polygon (\<lambda>r. ''0.0'') \<lparr>calls = [], paste_reply = (\<lambda>cs. [])\<rparr> ''tri''
      [[PNum (PyInt 0), PNum (PyInt 0), PNum (PyInt 0)],
       [PNum (PyInt 4), PNum (PyInt 0), PNum (PyInt 0)],
       [PNum (PyInt 4), PNum (PyInt 3), PNum (PyInt 0)]] ''um''
   = Inr \<lparr>calls =
       [Call ''CreatePolyline''
          [PList [PStr ''NAME:PolylineParameters'',
                  PStr ''IsPolylineCovered:='', PBool True,
                  PStr ''IsPolylineClosed:='', PBool True,
                  PList [PStr ''NAME:PolylinePoints'',
                         PList [PStr ''NAME:PLPoint'', PStr ''X:='', PStr ''0um'',
                                PStr ''Y:='', PStr ''0um'', PStr ''Z:='', PStr ''0um''],
                         PList [PStr ''NAME:PLPoint'', PStr ''X:='', PStr ''4um'',
                                PStr ''Y:='', PStr ''0um'', PStr ''Z:='', PStr ''0um''],
                         PList [PStr ''NAME:PLPoint'', PStr ''X:='', PStr ''4um'',
                                PStr ''Y:='', PStr ''3um'', PStr ''Z:='', PStr ''0um''],
                         PList [PStr ''NAME:PLPoint'', PStr ''X:='', PStr ''0um'',
                                PStr ''Y:='', PStr ''0um'', PStr ''Z:='', PStr ''0um'']],
                  PList [PStr ''NAME:PolylineSegments'',
                         PList [PStr ''NAME:PLSegment'', PStr ''SegmentType:='', PStr ''Line'',
                                PStr ''StartIndex:='', PNum (PyInt 0),
                                PStr ''NoOfPoints:='', PNum (PyInt 2)],
                         PList [PStr ''NAME:PLSegment'', PStr ''SegmentType:='', PStr ''Line'',
                                PStr ''StartIndex:='', PNum (PyInt 1),
                                PStr ''NoOfPoints:='', PNum (PyInt 2)],
                         PList [PStr ''NAME:PLSegment'', PStr ''SegmentType:='', PStr ''Line'',
                                PStr ''StartIndex:='', PNum (PyInt 2),
                                PStr ''NoOfPoints:='', PNum (PyInt 2)]],
                  PList [PStr ''NAME:PolylineXSection'',
                         PStr ''XSectionType:='', PStr ''None'',
                         PStr ''XSectionOrient:='', PStr ''Auto'',
                         PStr ''XSectionWidth:='', PStr ''0um'',
                         PStr ''XSectionTopWidth:='', PStr ''0um'',
                         PStr ''XSectionHeight:='', PStr ''0um'',
                         PStr ''XSectionNumSegments:='', PStr ''0'',
                         PStr ''XSectionBendType:='', PStr ''Corner'']],
           PList [PStr ''NAME:Attributes'', PStr ''Name:='', PStr ''tri'',
                  PStr ''Flags:='', PStr '''',
                  PStr ''PartCoordinateSystem:='', PStr ''Global'']]],
      paste_reply = (\<lambda>cs. [])\<rparr>"
  using create_polygon_closed_polyline
    [of "[[PNum (PyInt 0), PNum (PyInt 0), PNum (PyInt 0)],
          [PNum (PyInt 4), PNum (PyInt 0), PNum (PyInt 0)],
          [PNum (PyInt 4), PNum (PyInt 3), PNum (PyInt 0)]]"
        "\<lambda>r. ''0.0''" "\<lparr>calls = [], paste_reply = (\<lambda>cs. [])\<rparr>" "''tri''" "''um''"]
  by (simp add: create_polygon_def py_index_def polyline_point_def polyline_segment_def
      polyline_xsection_def issue_def str_int_def digit_char_def upt_rec)

subsection \<open>The transforms\<close>

text \<open>
  C5: with an empty list of objects, \<open>thicken_sheet\<close>, \<open>move_vertically\<close>, \<open>scale\<close>,
  \<open>copy_paste\<close>, \<open>delete\<close>, \<open>subtract\<close> and \<open>unite\<close> leave the session without a
  call, and so do \<open>scale\<close> with the factor 1 and \<open>unite\<close> with fewer than two objects;
  \<open>copy_paste\<close> of an empty list returns an empty list.
\<close>

theorem empty_objects_no_call:
  "thicken_sheet fstr oEditor [] thickness units = oEditor
   \<and> move_vertically fstr oEditor [] z_shift units = oEditor
   \<and> scale fstr oEditor [] factor = oEditor
   \<and> copy_paste oEditor [] = (oEditor, [])
   \<and> delete oEditor [] = oEditor
   \<and> subtract oEditor [] tool_objects keep_originals = oEditor
   \<and> unite oEditor [] keep_originals = oEditor
   \<and> (num_val factor = 1 \<longrightarrow> scale fstr oEditor objects factor = oEditor)
   \<and> (length objects < 2 \<longrightarrow> unite oEditor objects keep_originals = oEditor)"
  by (simp add: thicken_sheet_def move_vertically_def scale_def copy_paste_def delete_def
      subtract_def unite_def)

theorem empty_objects_no_call_witness:
  "thicken_sheet (\<lambda>r. ''1.0'') \<lparr>calls = [], paste_reply = (\<lambda>cs. [''a1''])\<rparr> [] (PyInt 3) ''um''
     = \<lparr>calls = [], paste_reply = (\<lambda>cs. [''a1''])\<rparr>
   \<and> copy_paste \<lparr>calls = [], paste_reply = (\<lambda>cs. [''a1''])\<rparr> []
     = (\<lparr>calls = [], paste_reply = (\<lambda>cs. [''a1''])\<rparr>, [])
   \<and> scale (\<lambda>r. ''1.0'') \<lparr>calls = [], paste_reply = (\<lambda>cs. [''a1''])\<rparr> [''a''] (PyFloat 1.0)
     = \<lparr>calls = [], paste_reply = (\<lambda>cs. [''a1''])\<rparr>
   \<and> unite \<lparr>calls = [], paste_reply = (\<lambda>cs. [''a1''])\<rparr> [''a''] False
     = \<lparr>calls = [], paste_reply = (\<lambda>cs. [''a1''])\<rparr>"
  using empty_objects_no_call
    [of "\<lambda>r. ''1.0''" "\<lparr>calls = [], paste_reply = (\<lambda>cs. [''a1''])\<rparr>" "PyInt 3" "''um''"
        "PyInt 3" "PyFloat 1.0" "[]" False "[''a'']"]
  by simp

text \<open>
  C9: for a list of objects that is not empty, \<open>set_material\<close> ends with one
  \<open>ChangeProperty\<close> call: with \<open>material=None\<close> it sets the property \<open>Model\<close> of the
  objects to \<open>False\<close>, and with a material it sets the property \<open>Material\<close> to the quoted
  name instead. Before it comes the call that sets \<open>Solve Inside\<close>, when \<open>solve_inside\<close>
  is given.
\<close>

theorem set_material_calls:
  assumes "objects \<noteq> []"
  shows "new_calls oEditor (set_material oEditor objects material solve_inside) =
     (case solve_inside of
        None \<Rightarrow> []
      | Some si \<Rightarrow>
          [Call ''ChangeProperty''
             [changed_prop objects [PStr ''NAME:Solve Inside'', PStr ''Value:='', PBool si]]])
     @ [Call ''ChangeProperty''
          [changed_prop objects
             (case material of
                None \<Rightarrow> [PStr ''NAME:Model'', PStr ''Value:='', PBool False]
              | Some m \<Rightarrow>
                  [PStr ''NAME:Material'', PStr ''Value:='', PStr ([CHR 0x22] @ m @ [CHR 0x22])])]]"
  using assms
  by (simp add: set_material_def new_calls_def issue_def Let_def split: option.splits)

theorem set_material_calls_witness:
  "new_calls \<lparr>calls = [], paste_reply = (\<lambda>cs. [])\<rparr>
     (set_material \<lparr>calls = [], paste_reply = (\<lambda>cs. [])\<rparr> [''a'', ''b''] None (Some True))
   = [Call ''ChangeProperty''
        [PList [PStr ''NAME:AllTabs'',
                PList [PStr ''NAME:Geometry3DAttributeTab'',
                       PList [PStr ''NAME:PropServers'', PStr ''a'', PStr ''b''],
                       PList [PStr ''NAME:ChangedProps'',
                              PList [PStr ''NAME:Solve Inside'', PStr ''Value:='', PBool True]]]]],
      Call ''ChangeProperty''
        [PList [PStr ''NAME:AllTabs'',
                PList [PStr ''NAME:Geometry3DAttributeTab'',
                       PList [PStr ''NAME:PropServers'', PStr ''a'', PStr ''b''],
                       PList [PStr ''NAME:ChangedProps'',
                              PList [PStr ''NAME:Model'', PStr ''Value:='', PBool False]]]]]]"
  using set_material_calls
    [of "[''a'', ''b'']" "\<lparr>calls = [], paste_reply = (\<lambda>cs. [])\<rparr>" None "Some True"]
  by (simp add: changed_prop_def)

subsection \<open>\<open>color_by_material\<close>\<close>

text \<open>
  C6: \<open>color_by_material\<close> returns \<open>(240, 120, 240, 0.5)\<close> whenever the material is
  called \<open>pec\<close> or its entry in the dictionary has a conductivity above 0, whatever else
  the dictionary holds; so it does for \<open>pec\<close> and the empty dictionary.
\<close>

theorem color_by_material_conductor:
  "(material = ''pec''
     \<or> (\<exists>props c. material_dict material = Some props \<and> props ''conductivity'' = Some c \<and> 0 < c)
    \<longrightarrow> color_by_material material material_dict is_sheet = (240, 120, 240, 0.5))
   \<and> color_by_material ''pec'' Map.empty is_sheet = (240, 120, 240, 0.5)"
  by (auto simp: color_by_material_def dict_get_def)

theorem color_by_material_conductor_witness:
  "color_by_material ''copper'' [''copper'' \<mapsto> [''conductivity'' \<mapsto> 58000000]] True
     = (240, 120, 240, 0.5)
   \<and> color_by_material ''pec'' [''copper'' \<mapsto> [''conductivity'' \<mapsto> 58000000]] False
     = (240, 120, 240, 0.5)"
  using color_by_material_conductor
    [of "''copper''" "[''copper'' \<mapsto> [''conductivity'' \<mapsto> 58000000]]" True]
    color_by_material_conductor
    [of "''pec''" "[''copper'' \<mapsto> [''conductivity'' \<mapsto> 58000000]]" False]
  by simp

text \<open>
  C2, as stated, fails in the green channel: for silicon (permittivity 11.45, no
  conductivity, \<open>is_sheet=False\<close>) the formula with \<open>k = 1, 0, -1\<close> gives
  \<open>int(100 + 80 cos n) = 20\<close> for green, while the function computes
  \<open>int(100 + 80 cos (n + \<pi>)) = 179\<close> and returns \<open>(60, 179, 59, 0.93 ** n)\<close>.
\<close>

theorem color_by_material_formula_counterexample:
  "color_by_material ''silicon'' [''silicon'' \<mapsto> [''permittivity'' \<mapsto> 11.45]] False
     \<noteq> (py_int (100 + 80 * cos (0.3 * (11.45 - 1) - 1 * pi / 3)),
         py_int (100 + 80 * cos (0.3 * (11.45 - 1) - 0 * pi / 3)),
         py_int (100 + 80 * cos (0.3 * (11.45 - 1) - (- 1) * pi / 3)),
         0.93 powr (0.3 * (11.45 - 1)))
   \<and> color_by_material ''silicon'' [''silicon'' \<mapsto> [''permittivity'' \<mapsto> 11.45]] False
     = (60, 179, 59, 0.93 powr (0.3 * (11.45 - 1)))
   \<and> py_int (100 + 80 * cos (0.3 * (11.45 - 1) - 0 * pi / 3)) = 20"
  using silicon_channels by (simp add: color_by_material_def dict_get_def Let_def)

text \<open>
  C2, amended: for a material other than \<open>pec\<close> whose entry has permittivity 11.45 and
  a conductivity that is absent or not greater than 0, and \<open>is_sheet=False\<close>,
  \<open>color_by_material\<close> returns \<open>(R, G, B, alpha)\<close> with \<open>n = 0.3 * (11.45 - 1)\<close>,
  \<open>alpha = 0.93 ** n\<close>, \<open>R = int(100 + 80 cos (n - \<pi>/3))\<close>,
  \<open>G = int(100 + 80 cos (n + \<pi>))\<close> and \<open>B = int(100 + 80 cos (n + \<pi>/3))\<close>.
\<close>

theorem color_by_material_dielectric:
  assumes "material \<noteq> ''pec''"
    and "material_dict material = Some props"
    and "props ''permittivity'' = Some 11.45"
    and "props ''conductivity'' = None \<or> (\<exists>c. props ''conductivity'' = Some c \<and> c \<le> 0)"
  shows "color_by_material material material_dict False =
     (py_int (100 + 80 * cos (0.3 * (11.45 - 1) - pi / 3)),
      py_int (100 + 80 * cos (0.3 * (11.45 - 1) + pi)),
      py_int (100 + 80 * cos (0.3 * (11.45 - 1) + pi / 3)),
      0.93 powr (0.3 * (11.45 - 1)))"
  using assms by (auto simp: color_by_material_def dict_get_def Let_def)

theorem color_by_material_dielectric_witness:
  "color_by_material ''silicon'' [''silicon'' \<mapsto> [''permittivity'' \<mapsto> 11.45]] False =
     (py_int (100 + 80 * cos (0.3 * (11.45 - 1) - pi / 3)),
      py_int (100 + 80 * cos (0.3 * (11.45 - 1) + pi)),
      py_int (100 + 80 * cos (0.3 * (11.45 - 1) + pi / 3)),
      0.93 powr (0.3 * (11.45 - 1)))
   \<and> py_int (100 + 80 * cos (0.3 * (11.45 - 1) - pi / 3)) = 60
   \<and> py_int (100 + 80 * cos (0.3 * (11.45 - 1) + pi)) = 179
   \<and> py_int (100 + 80 * cos (0.3 * (11.45 - 1) + pi / 3)) = 59"
  using color_by_material_dielectric
    [of "''silicon''" "[''silicon'' \<mapsto> [''permittivity'' \<mapsto> 11.45]]" "[''permittivity'' \<mapsto> 11.45]"]
    silicon_channels
  by simp

subsection \<open>\<open>match_layer\<close>\<close>

text \<open>
  The pattern that \<open>match_layer\<close> builds reads, as a regular expression, as the start of
  the string, one item for each character of the layer pattern (\<open>.*\<close> for a \<open>*\<close>, the
  character itself otherwise) and the end of the string.
\<close>

lemma re_special_chars:
  "re_special (CHR 0x5C)" "re_special (CHR ''*'')" "re_special (CHR ''.'')"
  "re_special (CHR ''^'')" "re_special (CHR ''$'')"
  by (simp_all add: re_special_def)

lemma re_escape_Cons:
  "re_escape (p # ps) = (if re_special p then [CHR 0x5C, p] else [p]) @ re_escape ps"
  by (simp add: re_escape_def)

lemma re_escape_no_star_head: "re_escape ps = c # cs \<Longrightarrow> c \<noteq> CHR ''*''"
  by (cases ps) (auto simp: re_escape_Cons re_escape_def re_special_chars split: if_splits)

lemma replace_escaped_char:
  assumes "p \<noteq> CHR ''*''" and "\<And>c cs. rest = c # cs \<Longrightarrow> c \<noteq> CHR ''*''"
  shows "replace_escaped_star (CHR 0x5C # p # rest) = CHR 0x5C # p # replace_escaped_star rest"
  using assms by (cases rest) auto

lemma replace_plain_char:
  assumes "p \<noteq> CHR 0x5C"
  shows "replace_escaped_star (p # rest) = p # replace_escaped_star rest"
  using assms by (cases rest) auto

lemma replace_re_escape_Cons:
  "replace_escaped_star (re_escape (p # ps)) =
     (if p = CHR ''*'' then ''.*''
      else if re_special p then [CHR 0x5C, p] else [p]) @ replace_escaped_star (re_escape ps)"
proof -
  have head: "\<And>c cs. re_escape ps = c # cs \<Longrightarrow> c \<noteq> CHR ''*''"
    by (rule re_escape_no_star_head)
  show ?thesis
  proof (cases "re_special p")
    case True
    then show ?thesis
      using replace_escaped_char [of p "re_escape ps", OF _ head]
      by (auto simp: re_escape_Cons)
  next
    case False
    then have "p \<noteq> CHR 0x5C" and "p \<noteq> CHR ''*''"
      using re_special_chars by auto
    with False show ?thesis
      by (simp add: re_escape_Cons replace_plain_char)
  qed
qed

lemma re_parse_pattern:
  "re_parse (replace_escaped_star (re_escape pat) @ ''$'')
     = map (\<lambda>c. if c = CHR ''*'' then DotStar else Lit c) pat @ [Eol]"
proof (induction pat)
  case Nil
  show ?case by (simp add: re_escape_def)
next
  case (Cons p ps)
  obtain b cs where rest: "replace_escaped_star (re_escape ps) @ ''$'' = b # cs"
    by (cases "replace_escaped_star (re_escape ps) @ ''$''") auto
  show ?case
  proof (cases "re_special p")
    case True
    with Cons rest show ?thesis
      by (simp add: replace_re_escape_Cons)
  next
    case False
    then have "p \<noteq> CHR 0x5C" "p \<noteq> CHR ''*''" "p \<noteq> CHR ''.''" "p \<noteq> CHR ''^''" "p \<noteq> CHR ''$''"
      using re_special_chars by auto
    with False Cons rest show ?thesis
      by (simp add: replace_re_escape_Cons)
  qed
qed

lemma re_match_glob:
  "CHR 0x0A \<notin> set s \<Longrightarrow>
   re_match_at (map (\<lambda>c. if c = CHR ''*'' then DotStar else Lit c) pat @ [Eol]) b s
     = glob_match pat s"
proof (induction pat s arbitrary: b rule: glob_match.induct)
  case (1 s)
  then show ?case by auto
next
  case (2 p ps s)
  then show ?case by (cases s) auto
qed

text \<open>
  For a layer name without a newline, \<open>match_layer\<close> is the matching its documentation
  describes; the three examples of the specification are instances.
\<close>

lemma match_layer_glob:
  assumes "CHR 0x0A \<notin> set layer_name"
  shows "match_layer layer_name layer_pattern = glob_match layer_pattern layer_name"
proof -
  have "re_parse (''^'' @ replace_escaped_star (re_escape layer_pattern) @ ''$'')
          = Bol # re_parse (replace_escaped_star (re_escape layer_pattern) @ ''$'')"
    by (cases "replace_escaped_star (re_escape layer_pattern) @ ''$''") auto
  with assms show ?thesis
    by (simp add: match_layer_def re_match_def re_parse_pattern re_match_glob)
qed

lemma match_layer_examples:
  "match_layer ''M1_test'' ''M1_*'' \<and> \<not> match_layer ''M2_test'' ''M1_*''
   \<and> match_layer ''abc'' ''a*c''"
  by (simp add: match_layer_glob)

text \<open>
  C8: \<open>match_layer\<close> is to return \<open>True\<close> exactly when the whole layer name matches the
  pattern, \<open>*\<close> standing for any substring. The function misses this for names with a
  newline: \<open>$\<close> also matches just before a newline that ends the name, so the name
  \<open>abc\<close> followed by a newline matches the pattern \<open>abc\<close>; and \<open>.\<close> matches no
  newline, so the name \<open>a\<close>, newline, \<open>c\<close> does not match the pattern \<open>a*c\<close>.
\<close>

theorem match_layer_newline:
  "match_layer [CHR ''a'', CHR ''b'', CHR ''c'', CHR 0x0A] ''abc''
   \<and> \<not> glob_match ''abc'' [CHR ''a'', CHR ''b'', CHR ''c'', CHR 0x0A]
   \<and> \<not> match_layer [CHR ''a'', CHR 0x0A, CHR ''c''] ''a*c''
   \<and> glob_match ''a*c'' [CHR ''a'', CHR 0x0A, CHR ''c'']"
  by (simp add: match_layer_def re_match_def re_escape_def re_special_def)

section \<open>Properties of \<open>cross_section_helpers.py\<close>\<close>

lemma read_csv_file_absent: "dir file_name = None \<Longrightarrow> read_csv_file env dir file_name = Inl FileNotFoundError"
  by (simp add: read_csv_file_def open_read_def)

lemma read_csv_file_present:
  "dir file_name = Some content \<Longrightarrow> read_csv_file env dir file_name = read_csv env content"
  by (simp add: read_csv_file_def open_read_def)

lemma london_l_matrix_absent:
  "dir ''inductance.dat'' = None \<Longrightarrow> dir ''inductance.dat.0'' = None \<Longrightarrow>
   london_l_matrix dir env = Inl FileNotFoundError"
  by (simp add: london_l_matrix_def read_csv_file_absent)

lemma capacitance_l_matrix_absent:
  "dir ''capacitance0.dat'' = None \<Longrightarrow> capacitance_l_matrix dir env = Inl FileNotFoundError"
  by (simp add: capacitance_l_matrix_def read_csv_file_absent)

text \<open>
  C3: \<open>get_cross_section_capacitance_and_inductance\<close> returns \<open>Cs\<close> and \<open>Ls\<close> both
  \<open>None\<close> when the folder has no \<open>capacitance.dat\<close>, whatever else it holds; it returns
  the parsed capacitance matrix with \<open>Ls\<close> \<open>None\<close> when \<open>capacitance.dat\<close> is there and
  the inductance input is not (\<open>inductance.dat\<close> and \<open>inductance.dat.0\<close> with London
  equations, \<open>capacitance0.dat\<close> without); and a \<open>FileNotFoundError\<close> never reaches the
  caller.
\<close>

theorem missing_output_files:
  "(folder_path ''capacitance.dat'' = None \<longrightarrow>
      get_cross_section_capacitance_and_inductance env json_data folder_path
        = Inr \<lparr>Cs = None, Ls = None\<rparr>)
   \<and> (folder_path ''capacitance.dat'' = Some content
        \<and> read_csv env content = Inr c_matrix
        \<and> use_london_equations env json_data = Inr london
        \<and> (if london
            then folder_path ''inductance.dat'' = None \<and> folder_path ''inductance.dat.0'' = None
            else folder_path ''capacitance0.dat'' = None) \<longrightarrow>
      get_cross_section_capacitance_and_inductance env json_data folder_path
        = Inr \<lparr>Cs = Some c_matrix, Ls = None\<rparr>)
   \<and> get_cross_section_capacitance_and_inductance env json_data folder_path
        \<noteq> Inl FileNotFoundError"
proof (intro conjI impI)
  assume "folder_path ''capacitance.dat'' = None"
  then show "get_cross_section_capacitance_and_inductance env json_data folder_path
        = Inr \<lparr>Cs = None, Ls = None\<rparr>"
    by (simp add: get_cross_section_capacitance_and_inductance_def read_csv_file_absent)
next
  assume a: "folder_path ''capacitance.dat'' = Some content
        \<and> read_csv env content = Inr c_matrix
        \<and> use_london_equations env json_data = Inr london
        \<and> (if london
            then folder_path ''inductance.dat'' = None \<and> folder_path ''inductance.dat.0'' = None
            else folder_path ''capacitance0.dat'' = None)"
  then have c: "read_csv_file env folder_path ''capacitance.dat'' = Inr c_matrix"
    by (simp add: read_csv_file_present)
  from a have "(if london then london_l_matrix folder_path env
                else capacitance_l_matrix folder_path env) = Inl FileNotFoundError"
    by (simp add: london_l_matrix_absent capacitance_l_matrix_absent split: if_splits)
  with a c show "get_cross_section_capacitance_and_inductance env json_data folder_path
        = Inr \<lparr>Cs = Some c_matrix, Ls = None\<rparr>"
    by (simp add: get_cross_section_capacitance_and_inductance_def)
next
  show "get_cross_section_capacitance_and_inductance env json_data folder_path
        \<noteq> Inl FileNotFoundError"
    by (auto simp: get_cross_section_capacitance_and_inductance_def split: sum.splits if_splits)
qed

theorem missing_output_files_witness:
  "get_cross_section_capacitance_and_inductance
      \<lparr>use_london_equations = (\<lambda>j. Inr j),
       sif_capacitance = (\<lambda>j p v w d z. Inr ''''),
       sif_inductance = (\<lambda>j p w c. Inr ''''),
       sif_circuit_definitions = (\<lambda>j. Inr ''''),
       read_csv = (\<lambda>c. if c = ''1 2'' then Inr [[1, 2]] else Inl (OtherError ''ParserError'')),
       linalg_inv = (\<lambda>m. Inr m), mu_0 = 1, epsilon_0 = 1,
       utf8_error = (\<lambda>b. None), impedance_inductance = (\<lambda>d c w. Inr d)\<rparr>
      True Map.empty
     = Inr \<lparr>Cs = None, Ls = None\<rparr>
   \<and> get_cross_section_capacitance_and_inductance
      \<lparr>use_london_equations = (\<lambda>j. Inr j),
       sif_capacitance = (\<lambda>j p v w d z. Inr ''''),
       sif_inductance = (\<lambda>j p w c. Inr ''''),
       sif_circuit_definitions = (\<lambda>j. Inr ''''),
       read_csv = (\<lambda>c. if c = ''1 2'' then Inr [[1, 2]] else Inl (OtherError ''ParserError'')),
       linalg_inv = (\<lambda>m. Inr m), mu_0 = 1, epsilon_0 = 1,
       utf8_error = (\<lambda>b. None), impedance_inductance = (\<lambda>d c w. Inr d)\<rparr>
      True [''capacitance.dat'' \<mapsto> ''1 2'']
     = Inr \<lparr>Cs = Some [[1, 2]], Ls = None\<rparr>
   \<and> get_cross_section_capacitance_and_inductance
      \<lparr>use_london_equations = (\<lambda>j. Inr j),
       sif_capacitance = (\<lambda>j p v w d z. Inr ''''),
       sif_inductance = (\<lambda>j p w c. Inr ''''),
       sif_circuit_definitions = (\<lambda>j. Inr ''''),
       read_csv = (\<lambda>c. if c = ''1 2'' then Inr [[1, 2]] else Inl (OtherError ''ParserError'')),
       linalg_inv = (\<lambda>m. Inr m), mu_0 = 1, epsilon_0 = 1,
       utf8_error = (\<lambda>b. None), impedance_inductance = (\<lambda>d c w. Inr d)\<rparr>
      False [''capacitance.dat'' \<mapsto> ''1 2'']
     = Inr \<lparr>Cs = Some [[1, 2]], Ls = None\<rparr>"
  using missing_output_files
    [of Map.empty
        "\<lparr>use_london_equations = (\<lambda>j. Inr j),
       sif_capacitance = (\<lambda>j p v w d z. Inr ''''),
       sif_inductance = (\<lambda>j p w c. Inr ''''),
       sif_circuit_definitions = (\<lambda>j. Inr ''''),
       read_csv = (\<lambda>c. if c = ''1 2'' then Inr [[1, 2]] else Inl (OtherError ''ParserError'')),
       linalg_inv = (\<lambda>m. Inr m), mu_0 = 1, epsilon_0 = 1,
       utf8_error = (\<lambda>b. None), impedance_inductance = (\<lambda>d c w. Inr d)\<rparr>" True "''1 2''" "[[1, 2]]" True]
    missing_output_files
    [of "[''capacitance.dat'' \<mapsto> ''1 2'']"
        "\<lparr>use_london_equations = (\<lambda>j. Inr j),
       sif_capacitance = (\<lambda>j p v w d z. Inr ''''),
       sif_inductance = (\<lambda>j p w c. Inr ''''),
       sif_circuit_definitions = (\<lambda>j. Inr ''''),
       read_csv = (\<lambda>c. if c = ''1 2'' then Inr [[1, 2]] else Inl (OtherError ''ParserError'')),
       linalg_inv = (\<lambda>m. Inr m), mu_0 = 1, epsilon_0 = 1,
       utf8_error = (\<lambda>b. None), impedance_inductance = (\<lambda>d c w. Inr d)\<rparr>" True "''1 2''" "[[1, 2]]" True]
    missing_output_files
    [of "[''capacitance.dat'' \<mapsto> ''1 2'']"
        "\<lparr>use_london_equations = (\<lambda>j. Inr j),
       sif_capacitance = (\<lambda>j p v w d z. Inr ''''),
       sif_inductance = (\<lambda>j p w c. Inr ''''),
       sif_circuit_definitions = (\<lambda>j. Inr ''''),
       read_csv = (\<lambda>c. if c = ''1 2'' then Inr [[1, 2]] else Inl (OtherError ''ParserError'')),
       linalg_inv = (\<lambda>m. Inr m), mu_0 = 1, epsilon_0 = 1,
       utf8_error = (\<lambda>b. None), impedance_inductance = (\<lambda>d c w. Inr d)\<rparr>" False "''1 2''" "[[1, 2]]" False]
  by simp

lemma py_index_hd: "xs \<noteq> [] \<Longrightarrow> py_index xs 0 = Inr (hd xs)"
  by (cases xs) (simp_all add: py_index_def)

lemma py_index_0_Inr: "py_index xs 0 = Inr x \<Longrightarrow> xs \<noteq> [] \<and> x = hd xs"
  by (cases xs) (simp_all add: py_index_def)

lemma mkdir_ok:
  "mkdir_error fs (events fs) p = None \<Longrightarrow>
   mkdir fs p = (fs\<lparr>events := events fs @ [Mkdir p]\<rparr>, Inr ())"
  by (simp add: mkdir_def)

lemma mkdir_Inr:
  "mkdir fs p = (fs', Inr u) \<Longrightarrow> fs' = fs\<lparr>events := events fs @ [Mkdir p]\<rparr>"
  by (auto simp: mkdir_def split: option.splits)

lemma save_ok:
  "open_error fs (events fs) p f = None \<Longrightarrow>
   write_error fs (events fs @ [Opened p f]) p f c = None \<Longrightarrow>
   save p fs f c = (fs\<lparr>events := events fs @ [Opened p f, Written p f c]\<rparr>, Inr f)"
  by (simp add: save_def)

lemma save_Inr:
  "save p fs f c = (fs', Inr x) \<Longrightarrow>
   x = f \<and> fs' = fs\<lparr>events := events fs @ [Opened p f, Written p f c]\<rparr>"
  by (auto simp: save_def Let_def split: option.splits)

lemma save_grows: "\<exists>later. events (fst (save p fs f c)) = events fs @ later"
  by (auto simp: save_def Let_def split: option.splits)

lemma save_grows_pair: "save p fs f c = (fs', r) \<Longrightarrow> \<exists>later. events fs' = events fs @ later"
  using save_grows [of p fs f c] by simp

lemma inductance_grows:
  "\<exists>later. events (fst (inductance_sif_files env fs json_data p names sif_files))
             = events fs @ later"
proof -
  have two: "\<exists>later. events fs4 = events fs @ later"
    if "save p fs f1 c1 = (fs3, r3)" and "save p fs3 f2 c2 = (fs4, r4)"
    for fs3 fs4 f1 c1 f2 c2 r3 r4
  proof -
    from that(1) obtain l1 where "events fs3 = events fs @ l1"
      using save_grows_pair by blast
    moreover from that(2) obtain l2 where "events fs4 = events fs3 @ l2"
      using save_grows_pair by blast
    ultimately show ?thesis by simp
  qed
  show ?thesis
    unfolding inductance_sif_files_def
    by (auto split: sum.splits prod.splits dest: save_grows_pair two)
qed

lemma inductance_Inr:
  "snd (inductance_sif_files env fs json_data p names sif_files) = Inr files \<Longrightarrow>
   \<exists>more. files = sif_files @ more"
  unfolding inductance_sif_files_def
  by (auto split: sum.splits prod.splits if_splits)

text \<open>
  When the folder can be made and the first file can be opened and written, the first
  file is written, and the second half of the function runs on from there.
\<close>

lemma produce_first_half:
  assumes "sif_names json_data = Some names" and "names \<noteq> []"
    and "sif_capacitance env json_data folder_path (hd names) (PyInt 0) 2 False = Inr content"
    and "mkdir_error fs0 (events fs0) folder_path = None"
    and "open_error fs0 (events fs0 @ [Mkdir folder_path]) folder_path (hd names @ ''.sif'')
           = None"
    and "write_error fs0
           (events fs0 @ [Mkdir folder_path, Opened folder_path (hd names @ ''.sif'')])
           folder_path (hd names @ ''.sif'') content = None"
  shows "produce_cross_section_sif_files env fs0 json_data folder_path
           = inductance_sif_files env
               (fs0\<lparr>events := events fs0
                   @ [Mkdir folder_path, Opened folder_path (hd names @ ''.sif''),
                      Written folder_path (hd names @ ''.sif'') content]\<rparr>)
               json_data folder_path names [hd names @ ''.sif'']"
  using assms(1,3-6) py_index_hd [OF assms(2)]
  by (simp add: produce_cross_section_sif_files_def mkdir_def save_def dict_item_def)

lemma produce_first_save:
  assumes "sif_names json_data = Some names" and "names \<noteq> []"
    and "sif_capacitance env json_data folder_path (hd names) (PyInt 0) 2 False = Inr content"
    and "mkdir_error fs0 (events fs0) folder_path = None"
    and "open_error fs0 (events fs0 @ [Mkdir folder_path]) folder_path (hd names @ ''.sif'')
           = None"
    and "write_error fs0
           (events fs0 @ [Mkdir folder_path, Opened folder_path (hd names @ ''.sif'')])
           folder_path (hd names @ ''.sif'') content = None"
  shows "\<exists>later.
           events (fst (produce_cross_section_sif_files env fs0 json_data folder_path))
             = events fs0
               @ [Mkdir folder_path, Opened folder_path (hd names @ ''.sif''),
                  Written folder_path (hd names @ ''.sif'') content]
               @ later"
  using inductance_grows
    [of env "fs0\<lparr>events := events fs0
                   @ [Mkdir folder_path, Opened folder_path (hd names @ ''.sif''),
                      Written folder_path (hd names @ ''.sif'') content]\<rparr>"
        json_data folder_path names "[hd names @ ''.sif'']"]
  by (simp add: produce_first_half [OF assms])

text \<open>Without an inductance simulation nothing comes after it.\<close>

lemma produce_capacitance_only:
  assumes "sif_names json_data = Some names" and "names \<noteq> []"
    and "sif_capacitance env json_data folder_path (hd names) (PyInt 0) 2 False = Inr content"
    and "mkdir_error fs0 (events fs0) folder_path = None"
    and "open_error fs0 (events fs0 @ [Mkdir folder_path]) folder_path (hd names @ ''.sif'')
           = None"
    and "write_error fs0
           (events fs0 @ [Mkdir folder_path, Opened folder_path (hd names @ ''.sif'')])
           folder_path (hd names @ ''.sif'') content = None"
    and "run_inductance_sim json_data = Some False"
  shows "produce_cross_section_sif_files env fs0 json_data folder_path
           = (fs0\<lparr>events := events fs0
                  @ [Mkdir folder_path, Opened folder_path (hd names @ ''.sif''),
                     Written folder_path (hd names @ ''.sif'') content]\<rparr>,
              Inr [hd names @ ''.sif''])"
  using assms(7)
  by (simp add: produce_first_half [OF assms(1-6)] inductance_sif_files_def dict_item_def)

text \<open>
  Every list the function returns comes after the first file was written, and starts with
  the name of that file.
\<close>

lemma produce_returns_after_save:
  assumes "snd (produce_cross_section_sif_files env fs0 json_data folder_path) = Inr files"
  shows "\<exists>ns content later.
           sif_names json_data = Some ns \<and> ns \<noteq> []
           \<and> sif_capacitance env json_data folder_path (hd ns) (PyInt 0) 2 False = Inr content
           \<and> events (fst (produce_cross_section_sif_files env fs0 json_data folder_path))
               = events fs0
                 @ [Mkdir folder_path, Opened folder_path (hd ns @ ''.sif''),
                    Written folder_path (hd ns @ ''.sif'') content]
                 @ later
           \<and> files \<noteq> [] \<and> hd files = hd ns @ ''.sif''"
proof -
  let ?P = "produce_cross_section_sif_files env fs0 json_data folder_path"
  obtain fs1 r1 where mk: "mkdir fs0 folder_path = (fs1, r1)"
    by (cases "mkdir fs0 folder_path")
  from assms mk obtain u where r1: "r1 = Inr u"
    by (cases r1) (simp_all add: produce_cross_section_sif_files_def)
  with mk have fs1: "fs1 = fs0\<lparr>events := events fs0 @ [Mkdir folder_path]\<rparr>"
    using mkdir_Inr [of fs0 folder_path fs1 u] by simp
  from assms mk r1 obtain ns where ns: "sif_names json_data = Some ns"
    by (cases "sif_names json_data")
      (simp_all add: produce_cross_section_sif_files_def dict_item_def)
  from assms mk r1 ns obtain n0 where n0: "py_index ns 0 = Inr n0"
    by (cases "py_index ns 0")
      (simp_all add: produce_cross_section_sif_files_def dict_item_def)
  then have ne: "ns \<noteq> []" and hd: "n0 = hd ns"
    using py_index_0_Inr [of ns n0] by simp_all
  from assms mk r1 ns n0 obtain content where
    c: "sif_capacitance env json_data folder_path n0 (PyInt 0) 2 False = Inr content"
    by (cases "sif_capacitance env json_data folder_path n0 (PyInt 0) 2 False")
      (simp_all add: produce_cross_section_sif_files_def dict_item_def)
  obtain fs2 r2 where sv: "save folder_path fs1 (n0 @ ''.sif'') content = (fs2, r2)"
    by (cases "save folder_path fs1 (n0 @ ''.sif'') content")
  from assms mk r1 ns n0 c sv obtain file0 where r2: "r2 = Inr file0"
    by (cases r2) (simp_all add: produce_cross_section_sif_files_def dict_item_def)
  with sv have file0: "file0 = n0 @ ''.sif''"
    and fs2: "fs2 = fs1\<lparr>events := events fs1
                @ [Opened folder_path (n0 @ ''.sif''), Written folder_path (n0 @ ''.sif'') content]\<rparr>"
    using save_Inr [of folder_path fs1 "n0 @ ''.sif''" content fs2 file0] by simp_all
  from mk r1 ns n0 c sv r2 have P:
    "?P = inductance_sif_files env fs2 json_data folder_path ns [file0]"
    by (simp add: produce_cross_section_sif_files_def dict_item_def)
  obtain later where "events (fst ?P) = events fs2 @ later"
    unfolding P using inductance_grows by blast
  with fs1 fs2 have ev: "events (fst ?P)
      = events fs0 @ [Mkdir folder_path, Opened folder_path (n0 @ ''.sif''),
                      Written folder_path (n0 @ ''.sif'') content] @ later"
    by simp
  from assms obtain more where "files = [file0] @ more"
    unfolding P using inductance_Inr by blast
  with file0 have "files \<noteq> []" and "hd files = n0 @ ''.sif''"
    by simp_all
  show ?thesis
    apply (rule exI [of _ ns])
    apply (rule exI [of _ content])
    apply (rule exI [of _ later])
    using ns ne c ev \<open>files \<noteq> []\<close> \<open>hd files = n0 @ ''.sif''\<close> hd by simp
qed

text \<open>
  In a fresh folder without subdirectories a file name with a slash cannot be opened:
  the function raises \<open>FileNotFoundError\<close> after making the folder, and writes nothing.
\<close>

lemma produce_open_refused:
  "produce_cross_section_sif_files
      \<lparr>use_london_equations = (\<lambda>j. Inr False),
       sif_capacitance = (\<lambda>j p v w d z. Inr (v @ (if z then '' with zero'' else '' no zero''))),
       sif_inductance = (\<lambda>j p w c. Inr ''inductance''),
       sif_circuit_definitions = (\<lambda>j. Inr ''definitions''),
       read_csv = (\<lambda>c. Inr []), linalg_inv = (\<lambda>m. Inr m), mu_0 = 1, epsilon_0 = 1,
       utf8_error = (\<lambda>b. None), impedance_inductance = (\<lambda>d c w. Inr d)\<rparr>
      \<lparr>events = [], mkdir_error = (\<lambda>ev p. None),
       open_error = (\<lambda>ev p f. if CHR ''/'' \<in> set f then Some FileNotFoundError else None),
       write_error = (\<lambda>ev p f c. None)\<rparr>
      \<lparr>sif_names = Some [''sub/cap''], run_inductance_sim = Some False\<rparr>
      ''sim''
     = (\<lparr>events = [Mkdir ''sim''], mkdir_error = (\<lambda>ev p. None),
         open_error = (\<lambda>ev p f. if CHR ''/'' \<in> set f then Some FileNotFoundError else None),
         write_error = (\<lambda>ev p f c. None)\<rparr>,
        Inl FileNotFoundError)"
  by (simp add: produce_cross_section_sif_files_def inductance_sif_files_def mkdir_def
      save_def dict_item_def py_index_def)

text \<open>
  C4: \<open>produce_cross_section_sif_files\<close> writes the file \<open>sif_names[0] + ".sif"\<close> with
  what \<open>sif_capacitance\<close> generates for angular frequency 0, dimension 2 and
  \<open>with_zero=False\<close>, whatever the configuration says about an inductance simulation:
  it is the first file written whenever the folder can be made and the file can be opened
  and written, and without an inductance simulation it is the only one. Every list the
  function returns comes after that file was written and starts with its name.
\<close>

theorem capacitance_file_written:
  "(sif_names json_data = Some names \<and> names \<noteq> []
      \<and> sif_capacitance env json_data folder_path (hd names) (PyInt 0) 2 False = Inr content
      \<and> mkdir_error fs0 (events fs0) folder_path = None
      \<and> open_error fs0 (events fs0 @ [Mkdir folder_path]) folder_path (hd names @ ''.sif'')
          = None
      \<and> write_error fs0
          (events fs0 @ [Mkdir folder_path, Opened folder_path (hd names @ ''.sif'')])
          folder_path (hd names @ ''.sif'') content = None
    \<longrightarrow>
      (\<exists>later.
         events (fst (produce_cross_section_sif_files env fs0 json_data folder_path))
           = events fs0
             @ [Mkdir folder_path, Opened folder_path (hd names @ ''.sif''),
                Written folder_path (hd names @ ''.sif'') content]
             @ later)
      \<and> (run_inductance_sim json_data = Some False \<longrightarrow>
           produce_cross_section_sif_files env fs0 json_data folder_path
             = (fs0\<lparr>events := events fs0
                    @ [Mkdir folder_path, Opened folder_path (hd names @ ''.sif''),
                       Written folder_path (hd names @ ''.sif'') content]\<rparr>,
                Inr [hd names @ ''.sif''])))
   \<and> (\<forall>files.
        snd (produce_cross_section_sif_files env fs0 json_data folder_path) = Inr files \<longrightarrow>
        (\<exists>ns c later.
           sif_names json_data = Some ns \<and> ns \<noteq> []
           \<and> sif_capacitance env json_data folder_path (hd ns) (PyInt 0) 2 False = Inr c
           \<and> events (fst (produce_cross_section_sif_files env fs0 json_data folder_path))
               = events fs0
                 @ [Mkdir folder_path, Opened folder_path (hd ns @ ''.sif''),
                    Written folder_path (hd ns @ ''.sif'') c]
                 @ later
           \<and> files \<noteq> [] \<and> hd files = hd ns @ ''.sif''))"
proof (intro conjI impI allI)
  assume a: "sif_names json_data = Some names \<and> names \<noteq> []
      \<and> sif_capacitance env json_data folder_path (hd names) (PyInt 0) 2 False = Inr content
      \<and> mkdir_error fs0 (events fs0) folder_path = None
      \<and> open_error fs0 (events fs0 @ [Mkdir folder_path]) folder_path (hd names @ ''.sif'')
          = None
      \<and> write_error fs0
          (events fs0 @ [Mkdir folder_path, Opened folder_path (hd names @ ''.sif'')])
          folder_path (hd names @ ''.sif'') content = None"
  then show "\<exists>later.
         events (fst (produce_cross_section_sif_files env fs0 json_data folder_path))
           = events fs0
             @ [Mkdir folder_path, Opened folder_path (hd names @ ''.sif''),
                Written folder_path (hd names @ ''.sif'') content]
             @ later"
    by (intro produce_first_save) simp_all
  assume "run_inductance_sim json_data = Some False"
  with a show "produce_cross_section_sif_files env fs0 json_data folder_path
             = (fs0\<lparr>events := events fs0
                    @ [Mkdir folder_path, Opened folder_path (hd names @ ''.sif''),
                       Written folder_path (hd names @ ''.sif'') content]\<rparr>,
                Inr [hd names @ ''.sif''])"
    by (intro produce_capacitance_only) simp_all
next
  fix files
  assume "snd (produce_cross_section_sif_files env fs0 json_data folder_path) = Inr files"
  then show "\<exists>ns c later.
           sif_names json_data = Some ns \<and> ns \<noteq> []
           \<and> sif_capacitance env json_data folder_path (hd ns) (PyInt 0) 2 False = Inr c
           \<and> events (fst (produce_cross_section_sif_files env fs0 json_data folder_path))
               = events fs0
                 @ [Mkdir folder_path, Opened folder_path (hd ns @ ''.sif''),
                    Written folder_path (hd ns @ ''.sif'') c]
                 @ later
           \<and> files \<noteq> [] \<and> hd files = hd ns @ ''.sif''"
    by (rule produce_returns_after_save)
qed

theorem capacitance_file_written_witness:
  "produce_cross_section_sif_files
      \<lparr>use_london_equations = (\<lambda>j. Inr False),
       sif_capacitance = (\<lambda>j p v w d z. Inr (v @ (if z then '' with zero'' else '' no zero''))),
       sif_inductance = (\<lambda>j p w c. Inr ''inductance''),
       sif_circuit_definitions = (\<lambda>j. Inr ''definitions''),
       read_csv = (\<lambda>c. Inr []), linalg_inv = (\<lambda>m. Inr m), mu_0 = 1, epsilon_0 = 1,
       utf8_error = (\<lambda>b. None), impedance_inductance = (\<lambda>d c w. Inr d)\<rparr>
      \<lparr>events = [], mkdir_error = (\<lambda>ev p. None),
       open_error = (\<lambda>ev p f. if CHR ''/'' \<in> set f then Some FileNotFoundError else None),
       write_error = (\<lambda>ev p f c. None)\<rparr>
      \<lparr>sif_names = Some [''capacitance'', ''inductance''], run_inductance_sim = Some False\<rparr>
      ''sim''
     = (\<lparr>events = [Mkdir ''sim'', Opened ''sim'' ''capacitance.sif'',
                   Written ''sim'' ''capacitance.sif'' ''capacitance no zero''],
         mkdir_error = (\<lambda>ev p. None),
         open_error = (\<lambda>ev p f. if CHR ''/'' \<in> set f then Some FileNotFoundError else None),
         write_error = (\<lambda>ev p f c. None)\<rparr>,
        Inr [''capacitance.sif''])
   \<and> produce_cross_section_sif_files
      \<lparr>use_london_equations = (\<lambda>j. Inr False),
       sif_capacitance = (\<lambda>j p v w d z. Inr (v @ (if z then '' with zero'' else '' no zero''))),
       sif_inductance = (\<lambda>j p w c. Inr ''inductance''),
       sif_circuit_definitions = (\<lambda>j. Inr ''definitions''),
       read_csv = (\<lambda>c. Inr []), linalg_inv = (\<lambda>m. Inr m), mu_0 = 1, epsilon_0 = 1,
       utf8_error = (\<lambda>b. None), impedance_inductance = (\<lambda>d c w. Inr d)\<rparr>
      \<lparr>events = [], mkdir_error = (\<lambda>ev p. None),
       open_error = (\<lambda>ev p f. if CHR ''/'' \<in> set f then Some FileNotFoundError else None),
       write_error = (\<lambda>ev p f c. None)\<rparr>
      \<lparr>sif_names = Some [''capacitance'', ''inductance''], run_inductance_sim = Some True\<rparr>
      ''sim''
     = (\<lparr>events = [Mkdir ''sim'', Opened ''sim'' ''capacitance.sif'',
                   Written ''sim'' ''capacitance.sif'' ''capacitance no zero'',
                   Opened ''sim'' ''inductance.sif'',
                   Written ''sim'' ''inductance.sif'' ''inductance with zero''],
         mkdir_error = (\<lambda>ev p. None),
         open_error = (\<lambda>ev p f. if CHR ''/'' \<in> set f then Some FileNotFoundError else None),
         write_error = (\<lambda>ev p f c. None)\<rparr>,
        Inr [''capacitance.sif'', ''inductance.sif''])"
  using capacitance_file_written
    [of "\<lparr>sif_names = Some [''capacitance'', ''inductance''], run_inductance_sim = Some False\<rparr>"
        "[''capacitance'', ''inductance'']"
        "\<lparr>use_london_equations = (\<lambda>j. Inr False),
       sif_capacitance = (\<lambda>j p v w d z. Inr (v @ (if z then '' with zero'' else '' no zero''))),
       sif_inductance = (\<lambda>j p w c. Inr ''inductance''),
       sif_circuit_definitions = (\<lambda>j. Inr ''definitions''),
       read_csv = (\<lambda>c. Inr []), linalg_inv = (\<lambda>m. Inr m), mu_0 = 1, epsilon_0 = 1,
       utf8_error = (\<lambda>b. None), impedance_inductance = (\<lambda>d c w. Inr d)\<rparr>"
        "''sim''" "''capacitance no zero''"
        "\<lparr>events = [], mkdir_error = (\<lambda>ev p. None),
       open_error = (\<lambda>ev p f. if CHR ''/'' \<in> set f then Some FileNotFoundError else None),
       write_error = (\<lambda>ev p f c. None)\<rparr>"]
    capacitance_file_written
    [of "\<lparr>sif_names = Some [''capacitance'', ''inductance''], run_inductance_sim = Some True\<rparr>"
        "[''capacitance'', ''inductance'']"
        "\<lparr>use_london_equations = (\<lambda>j. Inr False),
       sif_capacitance = (\<lambda>j p v w d z. Inr (v @ (if z then '' with zero'' else '' no zero''))),
       sif_inductance = (\<lambda>j p w c. Inr ''inductance''),
       sif_circuit_definitions = (\<lambda>j. Inr ''definitions''),
       read_csv = (\<lambda>c. Inr []), linalg_inv = (\<lambda>m. Inr m), mu_0 = 1, epsilon_0 = 1,
       utf8_error = (\<lambda>b. None), impedance_inductance = (\<lambda>d c w. Inr d)\<rparr>"
        "''sim''" "''capacitance no zero''"
        "\<lparr>events = [], mkdir_error = (\<lambda>ev p. None),
       open_error = (\<lambda>ev p f. if CHR ''/'' \<in> set f then Some FileNotFoundError else None),
       write_error = (\<lambda>ev p f c. None)\<rparr>"]
  by (simp add: produce_cross_section_sif_files_def inductance_sif_files_def mkdir_def
      save_def dict_item_def py_index_def)

end
